theory Spec2Isabelle
  imports Main "HOL-Library.Word"
begin

unbundle bit_operations_syntax

section \<open>Go values and library functions used by the resources\<close>

text \<open>
  A Go \<open>error\<close> value is represented by its message.  A \<open>url.Values\<close> is the list of
  its (key, value) pairs in the order of the \<open>Add\<close> calls.  A decoded JSON object
  (\<open>map[string]interface{}\<close>) is an association list read with \<open>map_of\<close>.
\<close>

type_synonym err = string
type_synonym url_values = "(string \<times> string) list"

datatype jvalue = JString string | JNumber int | JBool bool | JNull

type_synonym jobject = "(string \<times> jvalue) list"

text \<open>What a resource function returns when it does not return \<open>nil\<close>:
  \<open>diag.FromErr err\<close> (or a plain \<open>return err\<close>), \<open>diag.Errorf\<close> / \<open>fmt.Errorf\<close> with the
  formatted message, or a run-time panic of the Go program.\<close>

datatype diagnostics = FromErr err | Errorf string | Panic string

text \<open>The values \<open>d.Get\<close> hands out: an \<open>interface{}\<close> holding the Go type that the
  schema gives the field.\<close>

datatype tfvalue = TFInt int | TFString string | TFBool bool | TFNil

text \<open>The single-valued type assertion \<open>v.(string)\<close> panics on any other dynamic type.\<close>

fun assert_string :: "tfvalue \<Rightarrow> diagnostics + string" where
  "assert_string (TFString s) = Inr s"
| "assert_string (TFInt i) =
     Inl (Panic ''interface conversion: interface {} is int, not string'')"
| "assert_string (TFBool b) =
     Inl (Panic ''interface conversion: interface {} is bool, not string'')"
| "assert_string TFNil =
     Inl (Panic ''interface conversion: interface {} is nil, not string'')"

fun assert_int :: "tfvalue \<Rightarrow> diagnostics + int" where
  "assert_int (TFInt i) = Inr i"
| "assert_int (TFString s) =
     Inl (Panic ''interface conversion: interface {} is string, not int'')"
| "assert_int (TFBool b) =
     Inl (Panic ''interface conversion: interface {} is bool, not int'')"
| "assert_int TFNil =
     Inl (Panic ''interface conversion: interface {} is nil, not int'')"

text \<open>\<open>m[k].(string)\<close> on a decoded JSON object: the single-valued form panics when the key
  is missing or holds another type, the two-valued form (\<open>v, ok := m[k].(string)\<close>) yields
  \<open>ok = false\<close> then.\<close>

definition lookup_string :: "jobject \<Rightarrow> string \<Rightarrow> string option" where
  "lookup_string m k = (case map_of m k of Some (JString s) \<Rightarrow> Some s | _ \<Rightarrow> None)"

definition must_string :: "jobject \<Rightarrow> string \<Rightarrow> diagnostics + string" where
  "must_string m k =
     (case lookup_string m k of
        Some s \<Rightarrow> Inr s
      | None \<Rightarrow> Inl (Panic ''interface conversion: interface {} is not string''))"

subsection \<open>strconv\<close>

definition digit_of :: "nat \<Rightarrow> char" where
  "digit_of n = ''0123456789abcdef'' ! n"

fun Itoa_nat :: "nat \<Rightarrow> string" where
  "Itoa_nat n = (if n < 10 then [digit_of n] else Itoa_nat (n div 10) @ [digit_of (n mod 10)])"

declare Itoa_nat.simps [simp del]

definition Itoa :: "int \<Rightarrow> string" where
  "Itoa i = (if i < 0 then CHR ''-'' # Itoa_nat (nat (- i)) else Itoa_nat (nat i))"

definition dec_val :: "char \<Rightarrow> int option" where
  "dec_val c = map_of
     [(CHR ''0'', 0), (CHR ''1'', 1), (CHR ''2'', 2), (CHR ''3'', 3), (CHR ''4'', 4),
      (CHR ''5'', 5), (CHR ''6'', 6), (CHR ''7'', 7), (CHR ''8'', 8), (CHR ''9'', 9)] c"

definition hex_val :: "char \<Rightarrow> int option" where
  "hex_val c = (case dec_val c of
      Some v \<Rightarrow> Some v
    | None \<Rightarrow> map_of
     [(CHR ''a'', 10), (CHR ''b'', 11), (CHR ''c'', 12), (CHR ''d'', 13), (CHR ''e'', 14),
      (CHR ''f'', 15), (CHR ''A'', 10), (CHR ''B'', 11), (CHR ''C'', 12), (CHR ''D'', 13),
      (CHR ''E'', 14), (CHR ''F'', 15)] c)"

text \<open>Reading a digit string in a base, most significant digit first; \<open>None\<close> on the first
  character that is not a digit.\<close>

fun parse_digits :: "(char \<Rightarrow> int option) \<Rightarrow> int \<Rightarrow> int \<Rightarrow> string \<Rightarrow> int option" where
  "parse_digits dv base acc [] = Some acc"
| "parse_digits dv base acc (c # cs) =
     (case dv c of None \<Rightarrow> None | Some v \<Rightarrow> parse_digits dv base (acc * base + v) cs)"

definition parse_number :: "(char \<Rightarrow> int option) \<Rightarrow> int \<Rightarrow> string \<Rightarrow> int option" where
  "parse_number dv base s = (if s = [] then None else parse_digits dv base 0 s)"

text \<open>An optional sign followed by at least one digit, as \<open>strconv.Atoi\<close> and
  \<open>big.Int.SetString\<close> accept it.\<close>

definition parse_signed :: "(char \<Rightarrow> int option) \<Rightarrow> int \<Rightarrow> string \<Rightarrow> int option" where
  "parse_signed dv base s =
     (case s of
        [] \<Rightarrow> None
      | c # cs \<Rightarrow>
          if c = CHR ''-'' then map_option uminus (parse_number dv base cs)
          else if c = CHR ''+'' then parse_number dv base cs
          else parse_number dv base s)"

text \<open>\<open>n, _ := strconv.Atoi(s)\<close>: the value with the error dropped, which is 0 after a
  syntax error and the nearest 64-bit bound after a range error.\<close>

definition Atoi :: "string \<Rightarrow> int" where
  "Atoi s = (case parse_signed dec_val 10 s of
       None \<Rightarrow> 0
     | Some i \<Rightarrow> max (- (2 ^ 63)) (min (2 ^ 63 - 1) i))"

text \<open>Addition on Go's 64-bit \<open>int\<close>.\<close>

definition int_add :: "int \<Rightarrow> int \<Rightarrow> int" where
  "int_add a b = sint (word_of_int (a + b) :: 64 word)"

text \<open>\<open>new(big.Int).SetString(s, 16)\<close>: \<open>None\<close> is the nil pointer it returns on failure.\<close>

definition SetString16 :: "string \<Rightarrow> int option" where
  "SetString16 s = parse_signed hex_val 16 s"

section \<open>Address codec\<close>

text \<open>The resources call the helpers \<open>hexiptoip\<close>, \<open>iptolong\<close>, \<open>longtoip\<close>,
  \<open>prefixlengthtosize\<close>, \<open>prefixlengthtohexip\<close>, \<open>abs\<close>, \<open>BigIntToHexStr\<close>, \<open>hexip6toip6\<close>
  and \<open>prefix6lengthtosize\<close>, whose source is not among the provider's files considered
  here.  Each is modelled from the spec's Address Codec (section 4.1).  Where the spec is
  silent (input that is not in the wire or human format), the string conversions give the
  empty string and \<open>iptolong\<close> gives 0.\<close>

text \<open>Splitting a string at a separator, for the dotted notation.\<close>

definition split_on :: "char \<Rightarrow> string \<Rightarrow> string list" where
  "split_on sep s =
     (let (cur, rest) = foldr (\<lambda>c (cur, rest). if c = sep then ([], cur # rest) else (c # cur, rest))
                              s ([], [])
      in cur # rest)"

text \<open>Modelled from the spec: \<open>longtoip\<close> is missing; it converts the 32-bit integer value
  of an IPv4 address to the human (dotted) notation, octet by octet.\<close>

definition longtoip :: "32 word \<Rightarrow> string" where
  "longtoip iplong =
     (let a = drop_bit 24 (iplong AND 0xFF000000);
          b = drop_bit 16 (iplong AND 0xFF0000);
          c = drop_bit 8 (iplong AND 0xFF00);
          d = iplong AND 0xFF
      in Itoa_nat (unat a) @ ''.'' @ Itoa_nat (unat b) @ ''.'' @ Itoa_nat (unat c) @ ''.''
           @ Itoa_nat (unat d))"

text \<open>Modelled from the spec: \<open>iptolong\<close> is missing; it converts the human (dotted)
  notation of an IPv4 address to its 32-bit integer value.\<close>

definition iptolong :: "string \<Rightarrow> 32 word" where
  "iptolong ip =
     (case map (parse_number dec_val 10) (split_on CHR ''.'' ip) of
        [Some a, Some b, Some c, Some d] \<Rightarrow>
          push_bit 24 (word_of_int a) OR push_bit 16 (word_of_int b)
            OR push_bit 8 (word_of_int c) OR word_of_int d
      | _ \<Rightarrow> 0)"

text \<open>Modelled from the spec: \<open>hexiptoip\<close> is missing; it is \<open>fromWire(hex, 32)\<close>, from the
  fixed-width (8 digit) hexadecimal wire form to the human notation.\<close>

definition hexiptoip :: "string \<Rightarrow> string" where
  "hexiptoip hexip =
     (if length hexip = 8 then
        (case parse_number hex_val 16 hexip of
           Some n \<Rightarrow> longtoip (word_of_int n)
         | None \<Rightarrow> [])
      else [])"

text \<open>Modelled from the spec: \<open>prefixlengthtosize\<close> is missing; it is
  \<open>prefixToSize(prefixLen, 32) = 2^(32 - prefixLen)\<close>.\<close>

definition prefixlengthtosize :: "int \<Rightarrow> int" where
  "prefixlengthtosize len = 2 ^ nat (32 - len)"

text \<open>Modelled from the spec: \<open>prefixlengthtohexip\<close> is missing; it is
  \<open>prefixToNetmask(prefixLen)\<close>, the dotted netmask of the prefix length.\<close>

definition prefixlengthtohexip :: "int \<Rightarrow> string" where
  "prefixlengthtohexip len =
     longtoip (NOT (word_of_int (prefixlengthtosize len - 1)))"

text \<open>Modelled from the spec: \<open>abs\<close> is missing; it is the \<open>|offset|\<close> of the Offset
  Resolver.\<close>

definition abs_int :: "int \<Rightarrow> int" where
  "abs_int x = (if x < 0 then - x else x)"

text \<open>Modelled from the spec: \<open>prefix6lengthtosize\<close> is missing; it is
  \<open>prefixToSize(prefixLen, 128) = 2^(128 - prefixLen)\<close> as an arbitrary-precision
  value.\<close>

definition prefix6lengthtosize :: "int \<Rightarrow> int" where
  "prefix6lengthtosize len = 2 ^ nat (128 - len)"

function hex_digits :: "int \<Rightarrow> string" where
  "hex_digits n =
     (if n < 16 then [digit_of (nat n)] else hex_digits (n div 16) @ [digit_of (nat (n mod 16))])"
  by pat_completeness auto
termination
  by (relation "measure nat") auto

declare hex_digits.simps [simp del]

text \<open>Modelled from the spec: \<open>BigIntToHexStr\<close> is missing; it gives the fixed-width
  (32 digit) hexadecimal wire form of a 128-bit value.\<close>

definition BigIntToHexStr :: "int \<Rightarrow> string" where
  "BigIntToHexStr n =
     (if n < 0 then []
      else let h = hex_digits n in replicate (32 - length h) CHR ''0'' @ h)"

fun groups_of_four :: "string \<Rightarrow> string list" where
  "groups_of_four (a # b # c # d # e # rest) = [a, b, c, d] # groups_of_four (e # rest)"
| "groups_of_four s = [s]"

fun join_colon :: "string list \<Rightarrow> string" where
  "join_colon [] = []"
| "join_colon [g] = g"
| "join_colon (g # h # gs) = g @ '':'' @ join_colon (h # gs)"

text \<open>Modelled from the spec: \<open>hexip6toip6\<close> is missing; it is \<open>fromWire(hex, 128)\<close>, from
  the 32 digit wire form to the colon notation, here eight groups of four digits.\<close>

definition hexip6toip6 :: "string \<Rightarrow> string" where
  "hexip6toip6 hexip6 =
     (if length hexip6 = 32 \<and> parse_number hex_val 16 hexip6 \<noteq> None
      then join_colon (groups_of_four hexip6) else [])"

section \<open>The inventory, seen from the provider\<close>

text \<open>The answer of \<open>s.Request\<close> when \<open>err == nil\<close>: the HTTP status and the body after
  \<open>json.Unmarshal\<close> into \<open>buf\<close> (a body that does not decode leaves \<open>buf\<close> empty, the
  decoding error is dropped by the code).\<close>

record response =
  StatusCode :: nat
  buf :: "jobject list"

text \<open>Everything a resource function does to the outside is recorded, in order: the lookup
  helpers, the candidate searches, \<open>time.Sleep\<close> (in milliseconds) and \<open>s.Request\<close> with
  its method, service, parameters and what came back.\<close>

datatype event =
    Lookup string "string list"
  | FindFree string "string list"
  | Sleep nat
  | EvRequest string string url_values "err + response"

text \<open>The collaborators.  \<open>Request\<close> is the transport client; the lookup and search
  helpers are functions of the provider whose source is not among the files considered
  here, and only their signature is used: each reads the inventory and returns a value or
  an error.
  \<open>rand_source\<close> is the random generator behind \<open>rand.Intn\<close>, and \<open>Encode\<close> is
  \<open>url.Values.Encode\<close>.  The inventory is a state \<open>'s\<close> that every call may change, so
  that answers may differ from one call to the next.\<close>

record 's SOLIDserver =
  ipsiteidbyname :: "string \<Rightarrow> 's \<Rightarrow> (err + string) \<times> 's"
  ipsubnetinfobyname :: "string \<Rightarrow> string \<Rightarrow> bool \<Rightarrow> 's \<Rightarrow> (err + jobject) \<times> 's"
  ip6subnetinfobyname :: "string \<Rightarrow> string \<Rightarrow> bool \<Rightarrow> 's \<Rightarrow> (err + jobject) \<times> 's"
  ipsubnetfindbysize :: "string \<Rightarrow> string \<Rightarrow> string \<Rightarrow> int \<Rightarrow> 's \<Rightarrow> (err + string list) \<times> 's"
  ip6subnetfindbysize :: "string \<Rightarrow> string \<Rightarrow> string \<Rightarrow> int \<Rightarrow> 's \<Rightarrow> (err + string list) \<times> 's"
  vlanidfindfree :: "string \<Rightarrow> 's \<Rightarrow> (err + string list) \<times> 's"
  Request :: "string \<Rightarrow> string \<Rightarrow> url_values \<Rightarrow> 's \<Rightarrow> (err + response) \<times> 's"
  rand_source :: "'s \<Rightarrow> nat \<times> 's"
  Encode :: "url_values \<Rightarrow> string"

record 's world =
  inventory :: 's
  trace :: "event list"

definition perform :: "('a \<Rightarrow> event) \<Rightarrow> ('s \<Rightarrow> 'a \<times> 's) \<Rightarrow> 's world \<Rightarrow> 'a \<times> 's world" where
  "perform ev f w =
     (let (r, st) = f (inventory w)
      in (r, \<lparr>inventory = st, trace = trace w @ [ev r]\<rparr>))"

definition bool_arg :: "bool \<Rightarrow> string" where
  "bool_arg b = (if b then ''true'' else ''false'')"

definition call_ipsiteidbyname :: "'s SOLIDserver \<Rightarrow> string \<Rightarrow> 's world \<Rightarrow> (err + string) \<times> 's world" where
  "call_ipsiteidbyname s nm =
     perform (\<lambda>_. Lookup ''ipsiteidbyname'' [nm]) (ipsiteidbyname s nm)"

definition call_ipsubnetinfobyname ::
  "'s SOLIDserver \<Rightarrow> string \<Rightarrow> string \<Rightarrow> bool \<Rightarrow> 's world \<Rightarrow> (err + jobject) \<times> 's world" where
  "call_ipsubnetinfobyname s siteID nm term =
     perform (\<lambda>_. Lookup ''ipsubnetinfobyname'' [siteID, nm, bool_arg term])
       (ipsubnetinfobyname s siteID nm term)"

definition call_ip6subnetinfobyname ::
  "'s SOLIDserver \<Rightarrow> string \<Rightarrow> string \<Rightarrow> bool \<Rightarrow> 's world \<Rightarrow> (err + jobject) \<times> 's world" where
  "call_ip6subnetinfobyname s siteID nm term =
     perform (\<lambda>_. Lookup ''ip6subnetinfobyname'' [siteID, nm, bool_arg term])
       (ip6subnetinfobyname s siteID nm term)"

definition call_ipsubnetfindbysize ::
  "'s SOLIDserver \<Rightarrow> string \<Rightarrow> string \<Rightarrow> string \<Rightarrow> int \<Rightarrow> 's world
     \<Rightarrow> (err + string list) \<times> 's world" where
  "call_ipsubnetfindbysize s siteID blockID requestedIP prefixSize =
     perform (\<lambda>_. FindFree ''ipsubnetfindbysize'' [siteID, blockID, requestedIP, Itoa prefixSize])
       (ipsubnetfindbysize s siteID blockID requestedIP prefixSize)"

definition call_ip6subnetfindbysize ::
  "'s SOLIDserver \<Rightarrow> string \<Rightarrow> string \<Rightarrow> string \<Rightarrow> int \<Rightarrow> 's world
     \<Rightarrow> (err + string list) \<times> 's world" where
  "call_ip6subnetfindbysize s siteID blockID requestedIP prefixSize =
     perform (\<lambda>_. FindFree ''ip6subnetfindbysize'' [siteID, blockID, requestedIP, Itoa prefixSize])
       (ip6subnetfindbysize s siteID blockID requestedIP prefixSize)"

definition call_vlanidfindfree ::
  "'s SOLIDserver \<Rightarrow> string \<Rightarrow> 's world \<Rightarrow> (err + string list) \<times> 's world" where
  "call_vlanidfindfree s vlanDomain =
     perform (\<lambda>_. FindFree ''vlanidfindfree'' [vlanDomain]) (vlanidfindfree s vlanDomain)"

definition call_Request ::
  "'s SOLIDserver \<Rightarrow> string \<Rightarrow> string \<Rightarrow> url_values \<Rightarrow> 's world \<Rightarrow> (err + response) \<times> 's world" where
  "call_Request s method service parameters =
     perform (EvRequest method service parameters) (Request s method service parameters)"

text \<open>\<open>rand.Intn(n)\<close> returns a number in \<open>[0, n)\<close>: a draw of the generator reduced
  modulo \<open>n\<close>.\<close>

definition Intn :: "'s SOLIDserver \<Rightarrow> nat \<Rightarrow> 's \<Rightarrow> nat \<times> 's" where
  "Intn s n st = (let (r, st') = rand_source s st in (r mod n, st'))"

text \<open>\<open>time.Sleep(time.Duration(rand.Intn(1000)) * time.Millisecond)\<close>\<close>

definition random_delay :: "'s SOLIDserver \<Rightarrow> 's world \<Rightarrow> unit \<times> 's world" where
  "random_delay s w = (let (ms, w') = perform Sleep (Intn s 1000) w in ((), w'))"

text \<open>The test the three creation loops and the updates apply to an answer: status 200 or
  201, a non-empty \<open>buf\<close>, and a string under \<open>ret_oid\<close> in its first object.\<close>

definition status_ok :: "response \<Rightarrow> bool" where
  "status_ok resp \<longleftrightarrow> (StatusCode resp = 200 \<or> StatusCode resp = 201) \<and> length (buf resp) > 0"

definition ret_oid :: "response \<Rightarrow> string option" where
  "ret_oid resp = lookup_string (buf resp ! 0) ''ret_oid''"

section \<open>Resource data\<close>

text \<open>The fields of \<open>schema.ResourceData\<close> each resource declares, with the Go type its
  schema gives them (\<open>TypeString\<close>, \<open>TypeInt\<close>, \<open>TypeBool\<close>, \<open>TypeMap\<close> of strings).
  \<open>resource_Id\<close> is what \<open>d.Id()\<close> reads and \<open>d.SetId\<close> writes; \<open>class_name\<close> is the
  field \<open>class\<close>.  The IPv4 subnet has the fields of the IPv6 subnet and \<open>netmask\<close>.\<close>

record resource_data =
  resource_Id :: string
  name :: string

record ip6subnet_data = resource_data +
  space :: string
  block :: string
  request_ip :: string
  prefix_size :: int
  prefix :: string
  address :: string
  gateway_offset :: int
  gateway :: string
  terminal :: bool
  class_name :: string
  class_parameters :: url_values

record ipsubnet_data = ip6subnet_data +
  netmask :: string

record vlan_data = resource_data +
  vlan_domain :: string
  request_id :: int
  vlan_id :: int

text \<open>\<open>d.Get(key)\<close> on a VLAN: \<open>vlan_domain\<close> and \<open>name\<close> are \<open>TypeString\<close>, \<open>request_id\<close>
  and \<open>vlan_id\<close> are \<open>TypeInt\<close>.\<close>

definition vlan_Get :: "vlan_data \<Rightarrow> string \<Rightarrow> tfvalue" where
  "vlan_Get d key =
     (if key = ''vlan_domain'' then TFString (vlan_domain d)
      else if key = ''request_id'' then TFInt (request_id d)
      else if key = ''vlan_id'' then TFInt (vlan_id d)
      else if key = ''name'' then TFString (name d)
      else TFNil)"

section \<open>IPv4 subnet creation\<close>

text \<open>The gateway of a candidate, computed on \<open>uint32\<close> (lines 190 to 194 of the IPv4
  subnet resource): from the block start for a positive offset, and for a negative one
  \<open>start + uint32(size) - uint32(abs(goffset)) - 1\<close>.\<close>

definition ipsubnet_gateway :: "string \<Rightarrow> int \<Rightarrow> int \<Rightarrow> string" where
  "ipsubnet_gateway subnetAddress prefixSize goffset =
     (if goffset > 0 then
        longtoip (iptolong (hexiptoip subnetAddress) + word_of_int goffset)
      else
        longtoip (iptolong (hexiptoip subnetAddress) + word_of_int (prefixlengthtosize prefixSize)
                    - word_of_int (abs_int goffset) - 1))"

text \<open>\<open>subnet_level\<close>: \<open>"0"\<close> without a parent block, else the parent's level plus one;
  \<open>blockInfo["level"].(string)\<close> panics when the parent's record has no such string.\<close>

definition ipsubnet_level :: "string \<Rightarrow> jobject \<Rightarrow> diagnostics + string" where
  "ipsubnet_level blockName blockInfo =
     (if length blockName = 0 then Inr ''0''
      else case must_string blockInfo ''level'' of
             Inl p \<Rightarrow> Inl p
           | Inr lvl \<Rightarrow> Inr (Itoa (int_add (Atoi lvl) 1)))"

definition ipsubnet_parameters ::
  "'s SOLIDserver \<Rightarrow> string \<Rightarrow> string \<Rightarrow> ipsubnet_data \<Rightarrow> string \<Rightarrow> url_values" where
  "ipsubnet_parameters s siteID level d subnetAddress =
     (let goffset = gateway_offset d;
          classParameters =
            (if goffset \<noteq> 0
             then [(''gateway'', ipsubnet_gateway subnetAddress (prefix_size d) goffset)]
             else []) @ class_parameters d
      in [(''site_id'', siteID),
          (''add_flag'', ''new_only''),
          (''subnet_name'', name d),
          (''subnet_addr'', hexiptoip subnetAddress),
          (''subnet_prefix'', Itoa (prefix_size d)),
          (''subnet_class_name'', class_name d),
          (''subnet_level'', level),
          (''is_terminal'', if terminal d then ''1'' else ''0''),
          (''subnet_class_parameters'', Encode s classParameters)])"

definition ipsubnet_created :: "ipsubnet_data \<Rightarrow> string \<Rightarrow> string \<Rightarrow> ipsubnet_data" where
  "ipsubnet_created d subnetAddress oid =
     (let goffset = gateway_offset d;
          d1 = d\<lparr>resource_Id := oid,
                 prefix := hexiptoip subnetAddress @ ''/'' @ Itoa (prefix_size d),
                 address := hexiptoip subnetAddress,
                 netmask := prefixlengthtohexip (prefix_size d)\<rparr>
      in if goffset \<noteq> 0
         then d1\<lparr>gateway := ipsubnet_gateway subnetAddress (prefix_size d) goffset\<rparr>
         else d1)"

text \<open>The loop \<open>for i := 0; i < len(subnetAddresses); i++\<close> over the candidates, and the
  failure reported after it.\<close>

fun ipsubnet_attempts ::
  "'s SOLIDserver \<Rightarrow> string \<Rightarrow> jobject \<Rightarrow> ipsubnet_data \<Rightarrow> string list \<Rightarrow> 's world
     \<Rightarrow> (diagnostics + ipsubnet_data) \<times> 's world" where
  "ipsubnet_attempts s siteID blockInfo d [] w =
     (Inl (Errorf (''Unable to create IP subnet: '' @ name d
                     @ '', unable to find a suitable prefix'' @ [CHR 0x0A])), w)"
| "ipsubnet_attempts s siteID blockInfo d (subnetAddress # rest) w =
     (case ipsubnet_level (block d) blockInfo of
        Inl p \<Rightarrow> (Inl p, w)
      | Inr level \<Rightarrow>
          (case random_delay s w of (_, w1) \<Rightarrow>
          (case call_Request s ''post'' ''rest/ip_subnet_add''
                  (ipsubnet_parameters s siteID level d subnetAddress) w1 of
             (Inl err, w2) \<Rightarrow> (Inl (FromErr err), w2)
           | (Inr resp, w2) \<Rightarrow>
               if status_ok resp then
                 (case ret_oid resp of
                    Some oid \<Rightarrow> (Inr (ipsubnet_created d subnetAddress oid), w2)
                  | None \<Rightarrow> ipsubnet_attempts s siteID blockInfo d rest w2)
               else ipsubnet_attempts s siteID blockInfo d rest w2)))"

text \<open>The parent block: looked up by name when one is given; without one the block id is
  empty, and a terminal subnet is refused.\<close>

definition ipsubnet_blockInfo ::
  "'s SOLIDserver \<Rightarrow> string \<Rightarrow> ipsubnet_data \<Rightarrow> 's world \<Rightarrow> (diagnostics + jobject) \<times> 's world" where
  "ipsubnet_blockInfo s siteID d w =
     (if length (block d) > 0 then
        (case call_ipsubnetinfobyname s siteID (block d) False w of
           (Inl blockErr, w1) \<Rightarrow> (Inl (FromErr blockErr), w1)
         | (Inr blockInfo, w1) \<Rightarrow> (Inr blockInfo, w1))
      else if terminal d then
        (Inl (Errorf (''Can't create a terminal IP block subnet: '' @ name d)), w)
      else (Inr [(''id'', JString [])], w))"

definition resourceipsubnetCreate ::
  "'s SOLIDserver \<Rightarrow> ipsubnet_data \<Rightarrow> 's world \<Rightarrow> (diagnostics + ipsubnet_data) \<times> 's world" where
  "resourceipsubnetCreate s d w =
     (case call_ipsiteidbyname s (space d) w of
        (Inl siteErr, w1) \<Rightarrow> (Inl (FromErr siteErr), w1)
      | (Inr siteID, w1) \<Rightarrow>
          (case ipsubnet_blockInfo s siteID d w1 of
             (Inl dg, w2) \<Rightarrow> (Inl dg, w2)
           | (Inr blockInfo, w2) \<Rightarrow>
               (case must_string blockInfo ''id'' of
                  Inl p \<Rightarrow> (Inl p, w2)
                | Inr blockID \<Rightarrow>
                    (case call_ipsubnetfindbysize s siteID blockID (request_ip d) (prefix_size d) w2 of
                       (Inl subnetErr, w3) \<Rightarrow> (Inl (FromErr subnetErr), w3)
                     | (Inr subnetAddresses, w3) \<Rightarrow>
                         ipsubnet_attempts s siteID blockInfo d subnetAddresses w3))))"

section \<open>IPv6 subnet creation\<close>

text \<open>The gateway of a candidate on \<open>big.Int\<close> (lines 189 to 199 of the IPv6 subnet
  resource).  \<open>SetString\<close> returns nil on a candidate that is not hexadecimal, and the
  \<open>Add\<close> on it is a nil dereference.\<close>

definition ip6subnet_gateway :: "string \<Rightarrow> int \<Rightarrow> int \<Rightarrow> diagnostics + string" where
  "ip6subnet_gateway subnetAddress prefixSize goffset =
     (case SetString16 subnetAddress of
        None \<Rightarrow> Inl (Panic ''invalid memory address or nil pointer dereference'')
      | Some bigStartAddr \<Rightarrow>
          if goffset > 0 then
            Inr (hexip6toip6 (BigIntToHexStr (bigStartAddr + goffset)))
          else
            Inr (hexip6toip6 (BigIntToHexStr
                   (bigStartAddr + prefix6lengthtosize prefixSize - abs_int goffset))))"

definition ip6subnet_parameters ::
  "'s SOLIDserver \<Rightarrow> string \<Rightarrow> ip6subnet_data \<Rightarrow> string \<Rightarrow> string \<Rightarrow> url_values" where
  "ip6subnet_parameters s siteID d subnetAddress gw =
     (let goffset = gateway_offset d;
          classParameters = (if goffset \<noteq> 0 then [(''gateway'', gw)] else []) @ class_parameters d
      in [(''site_id'', siteID),
          (''add_flag'', ''new_only''),
          (''subnet6_name'', name d),
          (''subnet6_addr'', hexip6toip6 subnetAddress),
          (''subnet6_prefix'', Itoa (prefix_size d)),
          (''subnet6_class_name'', class_name d)]
         @ (if length (block d) = 0 then [(''subnet_level'', ''0'')]
            else [(''use_reversed_relative_position'', ''1''), (''relative_position'', ''0'')])
         @ [(''is_terminal'', if terminal d then ''1'' else ''0''),
            (''subnet6_class_parameters'', Encode s classParameters)])"

definition ip6subnet_created :: "ip6subnet_data \<Rightarrow> string \<Rightarrow> string \<Rightarrow> string \<Rightarrow> ip6subnet_data" where
  "ip6subnet_created d subnetAddress gw oid =
     (let d1 = d\<lparr>resource_Id := oid,
                 prefix := hexip6toip6 subnetAddress @ ''/'' @ Itoa (prefix_size d),
                 address := hexip6toip6 subnetAddress\<rparr>
      in if gateway_offset d \<noteq> 0 then d1\<lparr>gateway := gw\<rparr> else d1)"

fun ip6subnet_attempts ::
  "'s SOLIDserver \<Rightarrow> string \<Rightarrow> ip6subnet_data \<Rightarrow> string list \<Rightarrow> 's world
     \<Rightarrow> (diagnostics + ip6subnet_data) \<times> 's world" where
  "ip6subnet_attempts s siteID d [] w =
     (Inl (Errorf (''Unable to create IPv6 subnet: '' @ name d
                     @ '', unable to find a suitable prefix'' @ [CHR 0x0A])), w)"
| "ip6subnet_attempts s siteID d (subnetAddress # rest) w =
     (case (if gateway_offset d \<noteq> 0
            then ip6subnet_gateway subnetAddress (prefix_size d) (gateway_offset d)
            else Inr []) of
        Inl p \<Rightarrow> (Inl p, w)
      | Inr gw \<Rightarrow>
          (case random_delay s w of (_, w1) \<Rightarrow>
          (case call_Request s ''post'' ''rest/ip6_subnet6_add''
                  (ip6subnet_parameters s siteID d subnetAddress gw) w1 of
             (Inl err, w2) \<Rightarrow> (Inl (FromErr err), w2)
           | (Inr resp, w2) \<Rightarrow>
               if status_ok resp then
                 (case ret_oid resp of
                    Some oid \<Rightarrow> (Inr (ip6subnet_created d subnetAddress gw oid), w2)
                  | None \<Rightarrow> ip6subnet_attempts s siteID d rest w2)
               else ip6subnet_attempts s siteID d rest w2)))"

definition ip6subnet_blockInfo ::
  "'s SOLIDserver \<Rightarrow> string \<Rightarrow> ip6subnet_data \<Rightarrow> 's world \<Rightarrow> (diagnostics + jobject) \<times> 's world" where
  "ip6subnet_blockInfo s siteID d w =
     (if length (block d) > 0 then
        (case call_ip6subnetinfobyname s siteID (block d) False w of
           (Inl blockErr, w1) \<Rightarrow> (Inl (FromErr blockErr), w1)
         | (Inr blockInfo, w1) \<Rightarrow> (Inr blockInfo, w1))
      else if terminal d then
        (Inl (Errorf (''Can't create a terminal IPv6 block subnet: '' @ name d)), w)
      else (Inr [(''id'', JString [])], w))"

definition resourceip6subnetCreate ::
  "'s SOLIDserver \<Rightarrow> ip6subnet_data \<Rightarrow> 's world \<Rightarrow> (diagnostics + ip6subnet_data) \<times> 's world" where
  "resourceip6subnetCreate s d w =
     (case call_ipsiteidbyname s (space d) w of
        (Inl siteErr, w1) \<Rightarrow> (Inl (FromErr siteErr), w1)
      | (Inr siteID, w1) \<Rightarrow>
          (case ip6subnet_blockInfo s siteID d w1 of
             (Inl dg, w2) \<Rightarrow> (Inl dg, w2)
           | (Inr blockInfo, w2) \<Rightarrow>
               (case must_string blockInfo ''id'' of
                  Inl p \<Rightarrow> (Inl p, w2)
                | Inr blockID \<Rightarrow>
                    (case call_ip6subnetfindbysize s siteID blockID (request_ip d) (prefix_size d) w2 of
                       (Inl subnetErr, w3) \<Rightarrow> (Inl (FromErr subnetErr), w3)
                     | (Inr subnetAddresses, w3) \<Rightarrow>
                         ip6subnet_attempts s siteID d subnetAddresses w3))))"

section \<open>VLAN creation and update\<close>

definition vlan_parameters :: "vlan_data \<Rightarrow> string \<Rightarrow> url_values" where
  "vlan_parameters d vlanID =
     [(''add_flag'', ''new_only''),
      (''vlmdomain_name'', vlan_domain d),
      (''vlmvlan_vlan_id'', vlanID),
      (''vlmvlan_name'', name d)]"

text \<open>The loop \<open>for i := 0; i < len(vlan_ids); i++\<close>: it builds the parameters and sends
  the request at once.\<close>

fun vlan_attempts ::
  "'s SOLIDserver \<Rightarrow> vlan_data \<Rightarrow> string list \<Rightarrow> 's world
     \<Rightarrow> (diagnostics + vlan_data) \<times> 's world" where
  "vlan_attempts s d [] w =
     (Inl (Errorf (''SOLIDServer - Unable to create vlan: '' @ name d @ [CHR 0x0A])), w)"
| "vlan_attempts s d (vlanID # rest) w =
     (case call_Request s ''post'' ''rest/vlm_vlan_add'' (vlan_parameters d vlanID) w of
        (Inl err, w1) \<Rightarrow> (Inl (FromErr err), w1)
      | (Inr resp, w1) \<Rightarrow>
          if status_ok resp then
            (case ret_oid resp of
               Some oid \<Rightarrow> (Inr (d\<lparr>resource_Id := oid\<rparr>), w1)
             | None \<Rightarrow> vlan_attempts s d rest w1)
          else vlan_attempts s d rest w1)"

text \<open>With a requested identifier the candidate list is
  \<open>[]string{d.Get("request_id").(string)}\<close>, a type assertion of the \<open>TypeInt\<close> field to
  \<open>string\<close>; otherwise the inventory is asked for free identifiers.\<close>

definition resourcevlanCreate ::
  "'s SOLIDserver \<Rightarrow> vlan_data \<Rightarrow> 's world \<Rightarrow> (diagnostics + vlan_data) \<times> 's world" where
  "resourcevlanCreate s d w =
     (case assert_int (vlan_Get d ''request_id'') of
        Inl p \<Rightarrow> (Inl p, w)
      | Inr requested \<Rightarrow>
          if requested > 0 then
            (case assert_string (vlan_Get d ''request_id'') of
               Inl p \<Rightarrow> (Inl p, w)
             | Inr vlanID \<Rightarrow> vlan_attempts s d [vlanID] w)
          else
            (case call_vlanidfindfree s (vlan_domain d) w of
               (Inl err, w1) \<Rightarrow> (Inl (FromErr err), w1)
             | (Inr vlan_ids, w1) \<Rightarrow> vlan_attempts s d vlan_ids w1))"

text \<open>The update builds its parameters, among them
  \<open>d.Get("vlan_id").(string)\<close> on the \<open>TypeInt\<close> field, then sends one \<open>put\<close>.\<close>

definition resourcevlanUpdate ::
  "'s SOLIDserver \<Rightarrow> vlan_data \<Rightarrow> 's world \<Rightarrow> (diagnostics + vlan_data) \<times> 's world" where
  "resourcevlanUpdate s d w =
     (case assert_string (vlan_Get d ''vlan_id'') of
        Inl p \<Rightarrow> (Inl p, w)
      | Inr vlanID \<Rightarrow>
          (case call_Request s ''put'' ''rest/vlm_vlan_add''
                  [(''vlmvlan_id'', resource_Id d),
                   (''add_flag'', ''edit_only''),
                   (''vlmvlan_vlan_id'', vlanID),
                   (''vlmvlan_name'', name d)] w of
             (Inr resp, w1) \<Rightarrow>
               (case (if status_ok resp then ret_oid resp else None) of
                  Some oid \<Rightarrow> (Inr (d\<lparr>resource_Id := oid\<rparr>), w1)
                | None \<Rightarrow>
                    (Inl (Errorf (''SOLIDServer - Unable to update vlan: '' @ name d @ [CHR 0x0A])), w1))
           | (Inl err, w1) \<Rightarrow> (Inl (FromErr err), w1)))"

section \<open>Reading the record of a run\<close>

text \<open>What a run appended to the record.\<close>

definition new_events :: "'s world \<Rightarrow> 's world \<Rightarrow> event list" where
  "new_events w w' = drop (length (trace w)) (trace w')"

fun is_request :: "event \<Rightarrow> bool" where
  "is_request (EvRequest method service parameters answer) = True"
| "is_request ev = False"

definition requests :: "event list \<Rightarrow> event list" where
  "requests evs = filter is_request evs"

fun is_sleep :: "event \<Rightarrow> bool" where
  "is_sleep (Sleep ms) = True"
| "is_sleep ev = False"

text \<open>An answer that reserves: no transport error, status 200 or 201, and an entity id
  under \<open>ret_oid\<close>.  Every other answer without a transport error is a conflict.\<close>

definition reserved :: "err + response \<Rightarrow> string option" where
  "reserved answer =
     (case answer of
        Inl e \<Rightarrow> None
      | Inr resp \<Rightarrow> if status_ok resp then ret_oid resp else None)"

definition conflict :: "err + response \<Rightarrow> bool" where
  "conflict answer \<longleftrightarrow> (case answer of Inl e \<Rightarrow> False | Inr resp \<Rightarrow> reserved answer = None)"

fun reserved_by :: "event \<Rightarrow> string option" where
  "reserved_by (EvRequest method service parameters answer) = reserved answer"
| "reserved_by ev = None"

fun transport_failure :: "event \<Rightarrow> err option" where
  "transport_failure (EvRequest method service parameters (Inl e)) = Some e"
| "transport_failure ev = None"

text \<open>Every request of the record comes right after a sleep of less than 1000 ms.\<close>

fun short_sleep :: "event \<Rightarrow> bool" where
  "short_sleep (Sleep ms) = (ms < 1000)"
| "short_sleep ev = False"

definition delayed_requests :: "event list \<Rightarrow> bool" where
  "delayed_requests evs \<longleftrightarrow>
     (\<forall>i \<in> {0 ..< length evs}. is_request (evs ! i) \<longrightarrow>
        0 < i \<and> short_sleep (evs ! (i - 1)))"

section \<open>Inventories for the examples\<close>

text \<open>An inventory that knows one space, one parent block \<open>net\<close> and a fixed list of free
  candidates, and answers the requests from a script, one answer per call, with a conflict
  once the script is used up.  Its state counts the requests.\<close>

definition created :: "string \<Rightarrow> err + response" where
  "created oid = Inr \<lparr>StatusCode = 201, buf = [[(''ret_oid'', JString oid)]]\<rparr>"

definition taken :: "err + response" where
  "taken = Inr \<lparr>StatusCode = 400, buf = [[(''errmsg'', JString ''already exists'')]]\<rparr>"

definition unreachable :: "err + response" where
  "unreachable = Inl ''connection refused''"

definition scripted :: "string list \<Rightarrow> (err + response) list \<Rightarrow> nat SOLIDserver" where
  "scripted candidates script =
     \<lparr>ipsiteidbyname = (\<lambda>nm st. (Inr ''7'', st)),
      ipsubnetinfobyname = (\<lambda>siteID nm term st.
         (Inr [(''id'', JString ''12''), (''level'', JString ''0'')], st)),
      ip6subnetinfobyname = (\<lambda>siteID nm term st.
         (Inr [(''id'', JString ''12''), (''level'', JString ''0'')], st)),
      ipsubnetfindbysize = (\<lambda>siteID blockID requestedIP prefixSize st. (Inr candidates, st)),
      ip6subnetfindbysize = (\<lambda>siteID blockID requestedIP prefixSize st. (Inr candidates, st)),
      vlanidfindfree = (\<lambda>vlanDomain st. (Inr candidates, st)),
      Request = (\<lambda>method service parameters st.
         (if st < length script then script ! st else taken, Suc st)),
      rand_source = (\<lambda>st. (4242 + st, st)),
      Encode = (\<lambda>vs. concat (map (\<lambda>(k, v). k @ ''='' @ v @ ''&'') vs))\<rparr>"

text \<open>Free candidates in wire form (IPv4 /24 blocks from 10.0.0.0, IPv6 /120 blocks from
  2001:db8::), free VLAN identifiers, and the parent block as the lookup reports it.\<close>

definition candidates4 :: "string list" where
  "candidates4 = [''0a000000'', ''0a000100'', ''0a000200'']"

definition candidates6 :: "string list" where
  "candidates6 = [''20010db8000000000000000000000000'', ''20010db8000000000000000000000100'',
                  ''20010db8000000000000000000000200'']"

definition candidatesv :: "string list" where
  "candidatesv = [''120'', ''121'', ''122'']"


definition fresh :: "nat world" where
  "fresh = \<lparr>inventory = 0, trace = []\<rparr>"

definition subnet_request :: "string \<Rightarrow> bool \<Rightarrow> int \<Rightarrow> int \<Rightarrow> ipsubnet_data" where
  "subnet_request blockName term prefixSize goffset =
     \<lparr>resource_Id = [], name = ''lan'', space = ''Local'', block = blockName,
      request_ip = [], prefix_size = prefixSize, prefix = [], address = [],
      gateway_offset = goffset, gateway = [], terminal = term, class_name = [],
      class_parameters = [], netmask = []\<rparr>"

definition subnet6_request :: "string \<Rightarrow> bool \<Rightarrow> int \<Rightarrow> int \<Rightarrow> ip6subnet_data" where
  "subnet6_request blockName term prefixSize goffset =
     \<lparr>resource_Id = [], name = ''lan6'', space = ''Local'', block = blockName,
      request_ip = [], prefix_size = prefixSize, prefix = [], address = [],
      gateway_offset = goffset, gateway = [], terminal = term, class_name = [],
      class_parameters = []\<rparr>"

definition vlan_request :: "int \<Rightarrow> vlan_data" where
  "vlan_request requested =
     \<lparr>resource_Id = [], name = ''office'', vlan_domain = ''campus'',
      request_id = requested, vlan_id = 0\<rparr>"

section \<open>The shape shared by the three creation loops\<close>

text \<open>A device for the proofs, not a function of the provider: \<open>attempt_loop\<close> says of a loop
  \<open>L\<close> over candidates what one pass does.  On no candidate it reports \<open>Errorf msg\<close>.  On a
  candidate that \<open>panics\<close> it stops there.  Otherwise it sleeps less than 1000 ms (when
  \<open>sleeps\<close>), sends one request, and then returns the transport error, or returns a
  resource whose id is the reserved entity id, or goes on with the other candidates.\<close>

definition attempt_outcome ::
  "(string list \<Rightarrow> 's world \<Rightarrow> (diagnostics + 'a resource_data_scheme) \<times> 's world) \<Rightarrow>
   string \<Rightarrow> string list \<Rightarrow> 's world \<Rightarrow> err + response \<Rightarrow> 's world \<Rightarrow> bool" where
  "attempt_outcome L a rest w answer w2 \<longleftrightarrow>
     (case answer of
        Inl e \<Rightarrow> L (a # rest) w = (Inl (FromErr e), w2)
      | Inr resp \<Rightarrow>
          (case reserved answer of
             Some oid \<Rightarrow> (\<exists>d'. L (a # rest) w = (Inr d', w2) \<and> resource_Id d' = oid)
           | None \<Rightarrow> L (a # rest) w = L rest w2))"

definition attempt_loop ::
  "'s SOLIDserver \<Rightarrow> bool \<Rightarrow> (string \<Rightarrow> bool) \<Rightarrow> string \<Rightarrow>
   (string list \<Rightarrow> 's world \<Rightarrow> (diagnostics + 'a resource_data_scheme) \<times> 's world) \<Rightarrow> bool" where
  "attempt_loop s sleeps panics msg L \<longleftrightarrow>
     (\<forall>w. L [] w = (Inl (Errorf msg), w)) \<and>
     (\<forall>a rest w. panics a \<longrightarrow> (\<exists>p. L (a # rest) w = (Inl (Panic p), w))) \<and>
     (\<forall>a rest w. \<not> panics a \<longrightarrow>
        (\<exists>ms method service parameters st answer w2.
            ms < 1000 \<and>
            answer = fst (Request s method service parameters st) \<and>
            trace w2 = trace w @ (if sleeps then [Sleep ms] else [])
                         @ [EvRequest method service parameters answer] \<and>
            attempt_outcome L a rest w answer w2))"

text \<open>What a creation does before its loop: it appends to the record, and neither
  requests nor sleeps.\<close>

definition prelude :: "'s world \<Rightarrow> 's world \<Rightarrow> bool" where
  "prelude w w1 \<longleftrightarrow>
     length (trace w) \<le> length (trace w1) \<and>
     (\<forall>ev\<in>set (drop (length (trace w)) (trace w1)). \<not> is_request ev \<and> \<not> is_sleep ev)"

section \<open>Effects of the collaborators on the record\<close>

lemma perform_trace: "perform ev f w = (r, w') \<Longrightarrow> trace w' = trace w @ [ev r]"
  by (auto simp: perform_def Let_def split: prod.splits)

lemma perform_result: "perform ev f w = (r, w') \<Longrightarrow> r = fst (f (inventory w))"
  by (auto simp: perform_def Let_def split: prod.splits)

lemma call_Request_trace:
  "call_Request s m svc prm w = (ans, w') \<Longrightarrow> trace w' = trace w @ [EvRequest m svc prm ans]"
  unfolding call_Request_def by (rule perform_trace)

lemma call_Request_answer:
  "call_Request s m svc prm w = (ans, w') \<Longrightarrow> ans = fst (Request s m svc prm (inventory w))"
  unfolding call_Request_def by (rule perform_result)

lemma random_delay_trace:
  "random_delay s w = (u, w') \<Longrightarrow> \<exists>ms<1000. trace w' = trace w @ [Sleep ms]"
  by (auto simp: random_delay_def perform_def Intn_def Let_def split: prod.splits)

section \<open>The three loops have the shared shape\<close>

lemma attempt_outcome_cases:
  assumes "attempt_outcome L a rest w ans w2"
  obtains
    (failed) e where "ans = Inl e" "L (a # rest) w = (Inl (FromErr e), w2)"
  | (reserved) resp d' where "ans = Inr resp" "reserved ans = Some (resource_Id d')"
      "L (a # rest) w = (Inr d', w2)"
  | (conflict) resp where "ans = Inr resp" "reserved ans = None" "L (a # rest) w = L rest w2"
  using assms unfolding attempt_outcome_def
  by (auto split: sum.splits option.splits)

lemma ipsubnet_attempts_loop:
  "attempt_loop s True (\<lambda>a. isl (ipsubnet_level (block d) blockInfo))
     (''Unable to create IP subnet: '' @ name d @ '', unable to find a suitable prefix'' @ [CHR 0x0A])
     (ipsubnet_attempts s siteID blockInfo d)"
  unfolding attempt_loop_def
proof (intro conjI allI impI)
  fix w show "ipsubnet_attempts s siteID blockInfo d [] w =
     (Inl (Errorf (''Unable to create IP subnet: '' @ name d @ '', unable to find a suitable prefix'' @ [CHR 0x0A])), w)"
    by simp
next
  fix a rest w
  assume "isl (ipsubnet_level (block d) blockInfo)"
  then obtain q where "ipsubnet_level (block d) blockInfo = Inl (Panic q)"
    by (auto simp: ipsubnet_level_def must_string_def split: if_splits option.splits sum.splits)
  then show "\<exists>p. ipsubnet_attempts s siteID blockInfo d (a # rest) w = (Inl (Panic p), w)"
    by simp
next
  fix a rest w
  assume "\<not> isl (ipsubnet_level (block d) blockInfo)"
  then obtain level where lv: "ipsubnet_level (block d) blockInfo = Inr level"
    by (cases "ipsubnet_level (block d) blockInfo") auto
  obtain u w1 where rd: "random_delay s w = (u, w1)" by (cases "random_delay s w")
  then obtain ms where ms: "ms < 1000" "trace w1 = trace w @ [Sleep ms]"
    using random_delay_trace by blast
  define prm where "prm = ipsubnet_parameters s siteID level d a"
  obtain ans w2 where cr: "call_Request s ''post'' ''rest/ip_subnet_add'' prm w1 = (ans, w2)"
    by (cases "call_Request s ''post'' ''rest/ip_subnet_add'' prm w1")
  have tr: "trace w2 = trace w @ (if True then [Sleep ms] else [])
              @ [EvRequest ''post'' ''rest/ip_subnet_add'' prm ans]"
    using call_Request_trace [OF cr] ms by simp
  have an: "ans = fst (Request s ''post'' ''rest/ip_subnet_add'' prm (inventory w1))"
    by (rule call_Request_answer [OF cr])
  have "attempt_outcome (ipsubnet_attempts s siteID blockInfo d) a rest w ans w2"
    using lv rd cr unfolding attempt_outcome_def
    by (auto simp: prm_def reserved_def ipsubnet_created_def Let_def split: sum.splits option.splits)
  with ms(1) tr an
  show "\<exists>ms method service parameters st answer w2.
          ms < 1000 \<and> answer = fst (Request s method service parameters st) \<and>
          trace w2 = trace w @ (if True then [Sleep ms] else [])
                       @ [EvRequest method service parameters answer] \<and>
          attempt_outcome (ipsubnet_attempts s siteID blockInfo d) a rest w answer w2"
    by blast
qed

lemma ip6subnet_attempts_loop:
  "attempt_loop s True (\<lambda>a. gateway_offset d \<noteq> 0 \<and> SetString16 a = None)
     (''Unable to create IPv6 subnet: '' @ name d @ '', unable to find a suitable prefix'' @ [CHR 0x0A])
     (ip6subnet_attempts s siteID d)"
  unfolding attempt_loop_def
proof (intro conjI allI impI)
  fix w show "ip6subnet_attempts s siteID d [] w =
     (Inl (Errorf (''Unable to create IPv6 subnet: '' @ name d @ '', unable to find a suitable prefix'' @ [CHR 0x0A])), w)"
    by simp
next
  fix a rest w
  assume "gateway_offset d \<noteq> 0 \<and> SetString16 a = None"
  then show "\<exists>p. ip6subnet_attempts s siteID d (a # rest) w = (Inl (Panic p), w)"
    by (simp add: ip6subnet_gateway_def)
next
  fix a rest w
  assume np: "\<not> (gateway_offset d \<noteq> 0 \<and> SetString16 a = None)"
  define g where "g = (if gateway_offset d \<noteq> 0
            then ip6subnet_gateway a (prefix_size d) (gateway_offset d) else Inr [])"
  from np have "\<exists>gw. g = Inr gw"
    by (cases "SetString16 a") (auto simp: g_def ip6subnet_gateway_def)
  then obtain gw where gw: "g = Inr gw" ..
  obtain u w1 where rd: "random_delay s w = (u, w1)" by (cases "random_delay s w")
  then obtain ms where ms: "ms < 1000" "trace w1 = trace w @ [Sleep ms]"
    using random_delay_trace by blast
  define prm where "prm = ip6subnet_parameters s siteID d a gw"
  obtain ans w2 where cr: "call_Request s ''post'' ''rest/ip6_subnet6_add'' prm w1 = (ans, w2)"
    by (cases "call_Request s ''post'' ''rest/ip6_subnet6_add'' prm w1")
  have tr: "trace w2 = trace w @ (if True then [Sleep ms] else [])
              @ [EvRequest ''post'' ''rest/ip6_subnet6_add'' prm ans]"
    using call_Request_trace [OF cr] ms by simp
  have an: "ans = fst (Request s ''post'' ''rest/ip6_subnet6_add'' prm (inventory w1))"
    by (rule call_Request_answer [OF cr])
  have "attempt_outcome (ip6subnet_attempts s siteID d) a rest w ans w2"
    using gw rd cr unfolding attempt_outcome_def g_def
    by (auto simp: prm_def reserved_def ip6subnet_created_def Let_def split: sum.splits option.splits)
  with ms(1) tr an
  show "\<exists>ms method service parameters st answer w2.
          ms < 1000 \<and> answer = fst (Request s method service parameters st) \<and>
          trace w2 = trace w @ (if True then [Sleep ms] else [])
                       @ [EvRequest method service parameters answer] \<and>
          attempt_outcome (ip6subnet_attempts s siteID d) a rest w answer w2"
    by blast
qed

lemma vlan_attempts_loop:
  "attempt_loop s False (\<lambda>a. False)
     (''SOLIDServer - Unable to create vlan: '' @ name d @ [CHR 0x0A])
     (vlan_attempts s d)"
  unfolding attempt_loop_def
proof (intro conjI allI impI)
  fix w show "vlan_attempts s d [] w =
     (Inl (Errorf (''SOLIDServer - Unable to create vlan: '' @ name d @ [CHR 0x0A])), w)"
    by simp
next
  fix a rest w
  assume False
  then show "\<exists>p. vlan_attempts s d (a # rest) w = (Inl (Panic p), w)" ..
next
  fix a rest w
  define prm where "prm = vlan_parameters d a"
  obtain ans w2 where cr: "call_Request s ''post'' ''rest/vlm_vlan_add'' prm w = (ans, w2)"
    by (cases "call_Request s ''post'' ''rest/vlm_vlan_add'' prm w")
  have tr: "trace w2 = trace w @ (if False then [Sleep 0] else [])
              @ [EvRequest ''post'' ''rest/vlm_vlan_add'' prm ans]"
    using call_Request_trace [OF cr] by simp
  have an: "ans = fst (Request s ''post'' ''rest/vlm_vlan_add'' prm (inventory w))"
    by (rule call_Request_answer [OF cr])
  have "attempt_outcome (vlan_attempts s d) a rest w ans w2"
    using cr unfolding attempt_outcome_def
    by (auto simp: prm_def reserved_def split: sum.splits option.splits)
  with tr an
  show "\<exists>ms method service parameters st answer w2.
          ms < 1000 \<and> answer = fst (Request s method service parameters st) \<and>
          trace w2 = trace w @ (if False then [Sleep ms] else [])
                       @ [EvRequest method service parameters answer] \<and>
          attempt_outcome (vlan_attempts s d) a rest w answer w2"
    by (intro exI [of _ "0::nat"] conjI) (simp, blast)
qed

lemma attempt_loop_Nil: "attempt_loop s sl pn msg L \<Longrightarrow> L [] w = (Inl (Errorf msg), w)"
  by (simp add: attempt_loop_def)

lemma attempt_loop_Cons:
  assumes "attempt_loop s sl pn msg L"
  obtains
    (panic) p where "pn a" "L (a # rest) w = (Inl (Panic p), w)"
  | (failed) ms m svc prm st e w2 where
      "\<not> pn a" "ms < 1000"
      "fst (Request s m svc prm st) = Inl e"
      "trace w2 = trace w @ (if sl then [Sleep ms] else []) @ [EvRequest m svc prm (Inl e)]"
      "L (a # rest) w = (Inl (FromErr e), w2)"
  | (reserved) ms m svc prm st resp d' w2 where
      "\<not> pn a" "ms < 1000"
      "fst (Request s m svc prm st) = Inr resp"
      "trace w2 = trace w @ (if sl then [Sleep ms] else []) @ [EvRequest m svc prm (Inr resp)]"
      "reserved (Inr resp) = Some (resource_Id d')"
      "L (a # rest) w = (Inr d', w2)"
  | (conflict) ms m svc prm st resp w2 where
      "\<not> pn a" "ms < 1000"
      "fst (Request s m svc prm st) = Inr resp"
      "trace w2 = trace w @ (if sl then [Sleep ms] else []) @ [EvRequest m svc prm (Inr resp)]"
      "reserved (Inr resp) = None"
      "L (a # rest) w = L rest w2"
proof (cases "pn a")
  case True
  with assms obtain p where "L (a # rest) w = (Inl (Panic p), w)"
    unfolding attempt_loop_def by blast
  with True show thesis by (rule panic)
next
  case False
  with assms obtain ms m svc prm st ans w2 where
    ms: "ms < 1000" and
    ans: "ans = fst (Request s m svc prm st)" and
    tr: "trace w2 = trace w @ (if sl then [Sleep ms] else []) @ [EvRequest m svc prm ans]" and
    res: "attempt_outcome L a rest w ans w2"
    unfolding attempt_loop_def by blast
  from res show thesis
  proof (cases rule: attempt_outcome_cases)
    case (failed e)
    with False ms ans tr show thesis by (intro that(2) [of ms m svc prm st e w2]) auto
  next
    case (reserved resp d')
    with False ms ans tr show thesis by (intro that(3) [of ms m svc prm st resp w2 d']) auto
  next
    case (conflict resp)
    with False ms ans tr show thesis by (intro that(4) [of ms m svc prm st resp w2]) auto
  qed
qed

section \<open>What follows from the shape\<close>


lemma attempt_loop_failure:
  assumes loop: "attempt_loop s sl pn msg L"
  shows "b \<le> length (trace w) \<Longrightarrow>
         \<forall>ev\<in>set (drop b (trace w)). transport_failure ev = None \<Longrightarrow>
         ev \<in> set (drop b (trace (snd (L cands w)))) \<Longrightarrow> transport_failure ev = Some e \<Longrightarrow>
         fst (L cands w) = Inl (FromErr e) \<and> last (trace (snd (L cands w))) = ev"
proof (induction cands arbitrary: w)
  case Nil
  then show ?case by (auto simp: attempt_loop_Nil [OF loop])
next
  case (Cons a rest)
  from loop show ?case
  proof (cases rule: attempt_loop_Cons [of _ _ _ _ _ a rest w])
    case (panic p)
    with Cons.prems show ?thesis by auto
  next
    case (failed ms m svc prm st e' w2)
    with Cons.prems show ?thesis by (auto split: if_splits)
  next
    case (reserved ms m svc prm st resp d' w2)
    with Cons.prems show ?thesis by (auto split: if_splits)
  next
    case (conflict ms m svc prm st resp w2)
    from conflict(4) Cons.prems(1) have b: "b \<le> length (trace w2)" by simp
    from conflict(4) Cons.prems(1,2)
    have quiet: "\<forall>ev\<in>set (drop b (trace w2)). transport_failure ev = None"
      by (auto split: if_splits)
    from Cons.IH [OF b quiet] Cons.prems(3,4) conflict(6) show ?thesis by simp
  qed
qed

lemma attempt_loop_success:
  assumes loop: "attempt_loop s sl pn msg L"
  shows "b \<le> length (trace w) \<Longrightarrow>
         \<forall>ev\<in>set (drop b (trace w)). reserved_by ev = None \<Longrightarrow>
         ((\<exists>d'. fst (L cands w) = Inr d')
            \<longleftrightarrow> (\<exists>ev\<in>set (drop b (trace (snd (L cands w)))). reserved_by ev \<noteq> None)) \<and>
         (\<forall>d'. fst (L cands w) = Inr d' \<longrightarrow>
            reserved_by (last (trace (snd (L cands w)))) = Some (resource_Id d'))"
proof (induction cands arbitrary: w)
  case Nil
  then show ?case by (auto simp: attempt_loop_Nil [OF loop])
next
  case (Cons a rest)
  from loop show ?case
  proof (cases rule: attempt_loop_Cons [of _ _ _ _ _ a rest w])
    case (panic p)
    with Cons.prems show ?thesis by auto
  next
    case (failed ms m svc prm st e' w2)
    with Cons.prems show ?thesis by (auto simp: reserved_def split: if_splits)
  next
    case (reserved ms m svc prm st resp d' w2)
    with Cons.prems show ?thesis by (auto split: if_splits)
  next
    case (conflict ms m svc prm st resp w2)
    from conflict(4) Cons.prems(1) have b: "b \<le> length (trace w2)" by simp
    from conflict(4,5) Cons.prems(1,2)
    have quiet: "\<forall>ev\<in>set (drop b (trace w2)). reserved_by ev = None"
      by (auto split: if_splits)
    from Cons.IH [OF b quiet] conflict(6) show ?thesis by simp
  qed
qed

lemma delayed_requests_iff:
  "delayed_requests evs \<longleftrightarrow>
     (\<forall>i<length evs. is_request (evs ! i) \<longrightarrow> 0 < i \<and> short_sleep (evs ! (i - 1)))"
  by (auto simp: delayed_requests_def)

lemma delayed_requests_snoc:
  assumes "delayed_requests evs" "\<not> is_request ev"
  shows "delayed_requests (evs @ [ev])"
  unfolding delayed_requests_iff
proof (intro allI impI)
  fix i
  assume i: "i < length (evs @ [ev])" and r: "is_request ((evs @ [ev]) ! i)"
  have old: "i < length evs"
  proof (rule ccontr)
    assume "\<not> i < length evs"
    with i have "i = length evs" by simp
    with r assms(2) show False by simp
  qed
  with r assms(1) have "0 < i \<and> short_sleep (evs ! (i - 1))"
    by (simp add: delayed_requests_iff nth_append)
  moreover from old have "i - 1 < length evs" by simp
  ultimately show "0 < i \<and> short_sleep ((evs @ [ev]) ! (i - 1))"
    by (simp add: nth_append)
qed

lemma delayed_requests_attempt:
  assumes "delayed_requests evs" "ms < 1000"
  shows "delayed_requests (evs @ [Sleep ms, EvRequest m svc prm ans])"
  unfolding delayed_requests_iff
proof (intro allI impI)
  fix i
  assume i: "i < length (evs @ [Sleep ms, EvRequest m svc prm ans])"
    and r: "is_request ((evs @ [Sleep ms, EvRequest m svc prm ans]) ! i)"
  consider "i < length evs" | "i = length evs" | "i = Suc (length evs)"
    using i by fastforce
  then show "0 < i \<and> short_sleep ((evs @ [Sleep ms, EvRequest m svc prm ans]) ! (i - 1))"
  proof cases
    case 1
    with r assms(1) have "0 < i \<and> short_sleep (evs ! (i - 1))"
      by (simp add: delayed_requests_iff nth_append)
    moreover from 1 have "i - 1 < length evs" by simp
    ultimately show ?thesis by (simp add: nth_append)
  next
    case 2
    with r show ?thesis by (simp add: nth_append)
  next
    case 3
    with assms(2) show ?thesis by (simp add: nth_append)
  qed
qed

lemma attempt_loop_delayed:
  assumes loop: "attempt_loop s True pn msg L"
  shows "b \<le> length (trace w) \<Longrightarrow> delayed_requests (drop b (trace w)) \<Longrightarrow>
         delayed_requests (drop b (trace (snd (L cands w))))"
proof (induction cands arbitrary: w)
  case Nil
  then show ?case by (simp add: attempt_loop_Nil [OF loop])
next
  case (Cons a rest)
  from loop show ?case
  proof (cases rule: attempt_loop_Cons [of _ _ _ _ _ a rest w])
    case (panic p)
    with Cons.prems show ?thesis by simp
  next
    case (failed ms m svc prm st e' w2)
    with Cons.prems show ?thesis by (simp add: delayed_requests_attempt)
  next
    case (reserved ms m svc prm st resp d' w2)
    with Cons.prems show ?thesis by (simp add: delayed_requests_attempt)
  next
    case (conflict ms m svc prm st resp w2)
    from conflict(4) Cons.prems(1) have b: "b \<le> length (trace w2)" by simp
    from conflict(2,4) Cons.prems have "delayed_requests (drop b (trace w2))"
      by (simp add: delayed_requests_attempt)
    from Cons.IH [OF b this] conflict(6) show ?thesis by simp
  qed
qed

lemma attempt_loop_no_sleep:
  assumes loop: "attempt_loop s False pn msg L"
  shows "b \<le> length (trace w) \<Longrightarrow> \<forall>ev\<in>set (drop b (trace w)). \<not> is_sleep ev \<Longrightarrow>
         \<forall>ev\<in>set (drop b (trace (snd (L cands w)))). \<not> is_sleep ev"
proof (induction cands arbitrary: w)
  case Nil
  then show ?case by (simp add: attempt_loop_Nil [OF loop])
next
  case (Cons a rest)
  from loop show ?case
  proof (cases rule: attempt_loop_Cons [of _ _ _ _ _ a rest w])
    case (panic p)
    with Cons.prems show ?thesis by simp
  next
    case (failed ms m svc prm st e' w2)
    with Cons.prems show ?thesis by auto
  next
    case (reserved ms m svc prm st resp d' w2)
    with Cons.prems show ?thesis by auto
  next
    case (conflict ms m svc prm st resp w2)
    from conflict(4) Cons.prems(1) have b: "b \<le> length (trace w2)" by simp
    from conflict(4) Cons.prems have "\<forall>ev\<in>set (drop b (trace w2)). \<not> is_sleep ev"
      by auto
    from Cons.IH [OF b this] conflict(6) show ?thesis by simp
  qed
qed

section \<open>The IPv4 codec round trip\<close>

text \<open>Reading back the dotted form of a 32-bit value gives the value: \<open>longtoip\<close> loses
  nothing, so the string a resource records determines the address.\<close>

lemma digits_below_ten:
  "\<forall>n<10. dec_val (digit_of n) = Some (int n) \<and> digit_of n \<noteq> CHR ''.''"
  by (simp add: numeral_eq_Suc All_less_Suc digit_of_def dec_val_def)

lemma dec_val_digit_of: "n < 10 \<Longrightarrow> dec_val (digit_of n) = Some (int n)"
  and digit_of_not_dot: "n < 10 \<Longrightarrow> digit_of n \<noteq> CHR ''.''"
  using digits_below_ten by blast+

lemma parse_digits_snoc:
  "parse_digits dv b acc (xs @ [c]) =
     (case parse_digits dv b acc xs of
        None \<Rightarrow> None
      | Some v \<Rightarrow> (case dv c of None \<Rightarrow> None | Some d \<Rightarrow> Some (v * b + d)))"
  by (induction xs arbitrary: acc) (auto split: option.splits)

lemma Itoa_nat_not_Nil: "Itoa_nat n \<noteq> []"
  by (subst Itoa_nat.simps) simp

lemma parse_digits_Itoa_nat: "parse_digits dec_val 10 0 (Itoa_nat n) = Some (int n)"
proof (induction n rule: Itoa_nat.induct)
  case (1 n)
  show ?case
  proof (cases "n < 10")
    case True
    then show ?thesis by (subst Itoa_nat.simps) (simp add: dec_val_digit_of)
  next
    case False
    then have "n mod 10 < 10" by simp
    moreover have "int (n div 10) * 10 + int (n mod 10) = int n"
      by (simp add: zdiv_int zmod_int)
    ultimately show ?thesis using False 1
      by (subst Itoa_nat.simps) (simp add: parse_digits_snoc dec_val_digit_of)
  qed
qed

lemma parse_number_Itoa_nat: "parse_number dec_val 10 (Itoa_nat n) = Some (int n)"
  by (simp add: parse_number_def Itoa_nat_not_Nil parse_digits_Itoa_nat)

lemma dot_notin_Itoa_nat: "CHR ''.'' \<notin> set (Itoa_nat n)"
proof (induction n rule: Itoa_nat.induct)
  case (1 n)
  show ?case
  proof (cases "n < 10")
    case True
    then show ?thesis by (subst Itoa_nat.simps) (simp add: digit_of_not_dot [symmetric])
  next
    case False
    then have "n mod 10 < 10" by simp
    with False 1 digit_of_not_dot [of "n mod 10"] show ?thesis
      by (subst Itoa_nat.simps) auto
  qed
qed

lemma split_on_plain: "sep \<notin> set x \<Longrightarrow> split_on sep x = [x]"
  unfolding split_on_def by (induction x) (auto split: prod.splits)

lemma split_on_first:
  "sep \<notin> set x \<Longrightarrow> split_on sep (x @ sep # y) = x # split_on sep y"
  unfolding split_on_def by (induction x) (auto split: prod.splits)

lemma octet_masks:
  "(0xFF000000 :: 32 word) = push_bit 24 (mask 8)" "(0xFF0000 :: 32 word) = push_bit 16 (mask 8)"
  "(0xFF00 :: 32 word) = push_bit 8 (mask 8)" "(0xFF :: 32 word) = mask 8"
  by (simp_all add: push_bit_eq_mult mask_eq_exp_minus_1)

lemma word32_octets:
  "push_bit 24 (word_of_int (int (unat (drop_bit 24 (w AND 0xFF000000)))))
     OR push_bit 16 (word_of_int (int (unat (drop_bit 16 (w AND 0xFF0000)))))
     OR push_bit 8 (word_of_int (int (unat (drop_bit 8 (w AND 0xFF00)))))
     OR word_of_int (int (unat (w AND 0xFF))) = (w :: 32 word)"
proof -
  have "push_bit 24 (drop_bit 24 (w AND push_bit 24 (mask 8)))
     OR push_bit 16 (drop_bit 16 (w AND push_bit 16 (mask 8)))
     OR push_bit 8 (drop_bit 8 (w AND push_bit 8 (mask 8)))
     OR (w AND mask 8) = w"
  proof (rule bit_word_eqI)
    fix n
    assume "n < LENGTH(32)"
    then consider "n < 8" | "8 \<le> n \<and> n < 16" | "16 \<le> n \<and> n < 24" | "24 \<le> n \<and> n < 32"
      by fastforce
    then show "bit (push_bit 24 (drop_bit 24 (w AND push_bit 24 (mask 8)))
       OR push_bit 16 (drop_bit 16 (w AND push_bit 16 (mask 8)))
       OR push_bit 8 (drop_bit 8 (w AND push_bit 8 (mask 8)))
       OR (w AND mask 8)) n = bit w n"
      by cases (auto simp add: bit_simps)
  qed
  then show ?thesis unfolding octet_masks by simp
qed


lemma split_on_dotted:
  "split_on CHR ''.'' (Itoa_nat a @ ''.'' @ Itoa_nat b @ ''.'' @ Itoa_nat c @ ''.'' @ Itoa_nat d)
     = [Itoa_nat a, Itoa_nat b, Itoa_nat c, Itoa_nat d]"
  by (simp add: split_on_first split_on_plain dot_notin_Itoa_nat)

lemma iptolong_longtoip: "iptolong (longtoip w) = w"
  unfolding longtoip_def iptolong_def Let_def split_on_dotted
  by (simp only: list.map parse_number_Itoa_nat list.case option.case word32_octets)

lemma uint_iptolong_longtoip:
  "uint (iptolong (longtoip (word_of_int (x mod 2 ^ 32)))) = x mod 2 ^ 32"
  unfolding iptolong_longtoip by (simp add: uint_word_of_int take_bit_eq_mod)

section \<open>Before the loop\<close>

text \<open>An event that is neither a request nor a sleep carries no answer.\<close>

lemma other_event_quiet:
  "\<not> is_request ev \<Longrightarrow> transport_failure ev = None \<and> reserved_by ev = None"
  by (cases ev) auto

lemma delayed_requests_quiet:
  "\<forall>ev\<in>set evs. \<not> is_request ev \<Longrightarrow> delayed_requests evs"
  by (auto simp: delayed_requests_def)

lemma call_ipsiteidbyname_trace:
  "call_ipsiteidbyname s nm w = (r, w') \<Longrightarrow> trace w' = trace w @ [Lookup ''ipsiteidbyname'' [nm]]"
  unfolding call_ipsiteidbyname_def by (drule perform_trace) simp

lemma call_ipsubnetinfobyname_trace:
  "call_ipsubnetinfobyname s siteID nm term w = (r, w') \<Longrightarrow>
   trace w' = trace w @ [Lookup ''ipsubnetinfobyname'' [siteID, nm, bool_arg term]]"
  unfolding call_ipsubnetinfobyname_def by (drule perform_trace) simp

lemma call_ip6subnetinfobyname_trace:
  "call_ip6subnetinfobyname s siteID nm term w = (r, w') \<Longrightarrow>
   trace w' = trace w @ [Lookup ''ip6subnetinfobyname'' [siteID, nm, bool_arg term]]"
  unfolding call_ip6subnetinfobyname_def by (drule perform_trace) simp

lemma call_ipsubnetfindbysize_trace:
  "call_ipsubnetfindbysize s siteID blockID ip n w = (r, w') \<Longrightarrow>
   trace w' = trace w @ [FindFree ''ipsubnetfindbysize'' [siteID, blockID, ip, Itoa n]]"
  unfolding call_ipsubnetfindbysize_def by (drule perform_trace) simp

lemma call_ip6subnetfindbysize_trace:
  "call_ip6subnetfindbysize s siteID blockID ip n w = (r, w') \<Longrightarrow>
   trace w' = trace w @ [FindFree ''ip6subnetfindbysize'' [siteID, blockID, ip, Itoa n]]"
  unfolding call_ip6subnetfindbysize_def by (drule perform_trace) simp

lemma call_vlanidfindfree_trace:
  "call_vlanidfindfree s vd w = (r, w') \<Longrightarrow>
   trace w' = trace w @ [FindFree ''vlanidfindfree'' [vd]]"
  unfolding call_vlanidfindfree_def by (drule perform_trace) simp

text \<open>The parent block costs at most one lookup.\<close>

lemma ipsubnet_blockInfo_trace:
  assumes "ipsubnet_blockInfo s siteID d w = (r, w')"
  shows "trace w' = trace w \<or>
         trace w' = trace w @ [Lookup ''ipsubnetinfobyname'' [siteID, block d, bool_arg False]]"
proof (cases "length (block d) > 0")
  case True
  obtain r1 w1 where c: "call_ipsubnetinfobyname s siteID (block d) False w = (r1, w1)"
    by (cases "call_ipsubnetinfobyname s siteID (block d) False w")
  with assms True have "w' = w1"
    by (cases r1) (auto simp: ipsubnet_blockInfo_def)
  with call_ipsubnetinfobyname_trace [OF c] show ?thesis by simp
next
  case False
  with assms show ?thesis by (auto simp: ipsubnet_blockInfo_def split: if_splits)
qed

lemma ip6subnet_blockInfo_trace:
  assumes "ip6subnet_blockInfo s siteID d w = (r, w')"
  shows "trace w' = trace w \<or>
         trace w' = trace w @ [Lookup ''ip6subnetinfobyname'' [siteID, block d, bool_arg False]]"
proof (cases "length (block d) > 0")
  case True
  obtain r1 w1 where c: "call_ip6subnetinfobyname s siteID (block d) False w = (r1, w1)"
    by (cases "call_ip6subnetinfobyname s siteID (block d) False w")
  with assms True have "w' = w1"
    by (cases r1) (auto simp: ip6subnet_blockInfo_def)
  with call_ip6subnetinfobyname_trace [OF c] show ?thesis by simp
next
  case False
  with assms show ?thesis by (auto simp: ip6subnet_blockInfo_def split: if_splits)
qed

text \<open>A creation either stops before the loop, having sent no request and slept not at
  all, or is the loop run on the candidates found, after lookups and one search.\<close>

lemma prelude_le: "prelude w w1 \<Longrightarrow> length (trace w) \<le> length (trace w1)"
  by (simp add: prelude_def)

lemma prelude_quiet:
  "prelude w w1 \<Longrightarrow> ev \<in> set (drop (length (trace w)) (trace w1)) \<Longrightarrow>
   transport_failure ev = None \<and> reserved_by ev = None \<and> \<not> is_sleep ev \<and> \<not> is_request ev"
  by (simp add: prelude_def other_event_quiet)

lemma prelude_delayed: "prelude w w1 \<Longrightarrow> delayed_requests (drop (length (trace w)) (trace w1))"
  by (simp add: prelude_def delayed_requests_quiet)


lemma prelude_refl: "prelude w w"
  by (simp add: prelude_def)

lemma prelude_step:
  "prelude w w1 \<Longrightarrow> trace w2 = trace w1 \<or> trace w2 = trace w1 @ [ev] \<Longrightarrow>
   \<not> is_request ev \<Longrightarrow> \<not> is_sleep ev \<Longrightarrow> prelude w w2"
  by (auto simp: prelude_def)

lemma resourceipsubnetCreate_cases:
  obtains
    (early) dg w1 where "resourceipsubnetCreate s d w = (Inl dg, w1)" "prelude w w1"
  | (loop) siteID blockInfo cands w3 where
      "resourceipsubnetCreate s d w = ipsubnet_attempts s siteID blockInfo d cands w3"
      "prelude w w3"
proof -
  obtain r1 w1 where c1: "call_ipsiteidbyname s (space d) w = (r1, w1)"
    by (cases "call_ipsiteidbyname s (space d) w")
  have p1: "prelude w w1"
    using prelude_refl call_ipsiteidbyname_trace [OF c1] by (rule prelude_step [OF _ disjI2]) simp_all
  show thesis
  proof (cases r1)
    case (Inl siteErr)
    with c1 have "resourceipsubnetCreate s d w = (Inl (FromErr siteErr), w1)"
      by (simp add: resourceipsubnetCreate_def)
    then show thesis using p1 by (rule early)
  next
    case (Inr siteID)
    obtain r2 w2 where c2: "ipsubnet_blockInfo s siteID d w1 = (r2, w2)"
      by (cases "ipsubnet_blockInfo s siteID d w1")
    have p2: "prelude w w2"
      using p1 ipsubnet_blockInfo_trace [OF c2] by (rule prelude_step) simp_all
    show thesis
    proof (cases r2)
      case (Inl dg)
      with c1 c2 Inr have "resourceipsubnetCreate s d w = (Inl dg, w2)"
        by (simp add: resourceipsubnetCreate_def)
      then show thesis using p2 by (rule early)
    next
      case blockInfo: (Inr blockInfo)
      show thesis
      proof (cases "must_string blockInfo ''id''")
        case (Inl p)
        with c1 c2 Inr blockInfo have "resourceipsubnetCreate s d w = (Inl p, w2)"
          by (simp add: resourceipsubnetCreate_def)
        then show thesis using p2 by (rule early)
      next
        case blockID: (Inr blockID)
        obtain r3 w3 where
          c3: "call_ipsubnetfindbysize s siteID blockID (request_ip d) (prefix_size d) w2 = (r3, w3)"
          by (cases "call_ipsubnetfindbysize s siteID blockID (request_ip d) (prefix_size d) w2")
        have p3: "prelude w w3"
          using p2 call_ipsubnetfindbysize_trace [OF c3]
          by (rule prelude_step [OF _ disjI2]) simp_all
        show thesis
        proof (cases r3)
          case (Inl subnetErr)
          with c1 c2 c3 Inr blockInfo blockID
          have "resourceipsubnetCreate s d w = (Inl (FromErr subnetErr), w3)"
            by (simp add: resourceipsubnetCreate_def)
          then show thesis using p3 by (rule early)
        next
          case cands: (Inr cands)
          with c1 c2 c3 Inr blockInfo blockID
          have "resourceipsubnetCreate s d w = ipsubnet_attempts s siteID blockInfo d cands w3"
            by (simp add: resourceipsubnetCreate_def)
          then show thesis using p3 by (rule loop)
        qed
      qed
    qed
  qed
qed

lemma resourceip6subnetCreate_cases:
  obtains
    (early) dg w1 where "resourceip6subnetCreate s d w = (Inl dg, w1)" "prelude w w1"
  | (loop) siteID cands w3 where
      "resourceip6subnetCreate s d w = ip6subnet_attempts s siteID d cands w3"
      "prelude w w3"
proof -
  obtain r1 w1 where c1: "call_ipsiteidbyname s (space d) w = (r1, w1)"
    by (cases "call_ipsiteidbyname s (space d) w")
  have p1: "prelude w w1"
    using prelude_refl call_ipsiteidbyname_trace [OF c1] by (rule prelude_step [OF _ disjI2]) simp_all
  show thesis
  proof (cases r1)
    case (Inl siteErr)
    with c1 have "resourceip6subnetCreate s d w = (Inl (FromErr siteErr), w1)"
      by (simp add: resourceip6subnetCreate_def)
    then show thesis using p1 by (rule early)
  next
    case (Inr siteID)
    obtain r2 w2 where c2: "ip6subnet_blockInfo s siteID d w1 = (r2, w2)"
      by (cases "ip6subnet_blockInfo s siteID d w1")
    have p2: "prelude w w2"
      using p1 ip6subnet_blockInfo_trace [OF c2] by (rule prelude_step) simp_all
    show thesis
    proof (cases r2)
      case (Inl dg)
      with c1 c2 Inr have "resourceip6subnetCreate s d w = (Inl dg, w2)"
        by (simp add: resourceip6subnetCreate_def)
      then show thesis using p2 by (rule early)
    next
      case blockInfo: (Inr blockInfo)
      show thesis
      proof (cases "must_string blockInfo ''id''")
        case (Inl p)
        with c1 c2 Inr blockInfo have "resourceip6subnetCreate s d w = (Inl p, w2)"
          by (simp add: resourceip6subnetCreate_def)
        then show thesis using p2 by (rule early)
      next
        case blockID: (Inr blockID)
        obtain r3 w3 where
          c3: "call_ip6subnetfindbysize s siteID blockID (request_ip d) (prefix_size d) w2 = (r3, w3)"
          by (cases "call_ip6subnetfindbysize s siteID blockID (request_ip d) (prefix_size d) w2")
        have p3: "prelude w w3"
          using p2 call_ip6subnetfindbysize_trace [OF c3]
          by (rule prelude_step [OF _ disjI2]) simp_all
        show thesis
        proof (cases r3)
          case (Inl subnetErr)
          with c1 c2 c3 Inr blockInfo blockID
          have "resourceip6subnetCreate s d w = (Inl (FromErr subnetErr), w3)"
            by (simp add: resourceip6subnetCreate_def)
          then show thesis using p3 by (rule early)
        next
          case cands: (Inr cands)
          with c1 c2 c3 Inr blockInfo blockID
          have "resourceip6subnetCreate s d w = ip6subnet_attempts s siteID d cands w3"
            by (simp add: resourceip6subnetCreate_def)
          then show thesis using p3 by (rule loop)
        qed
      qed
    qed
  qed
qed

lemma resourcevlanCreate_cases:
  obtains
    (early) dg w1 where "resourcevlanCreate s d w = (Inl dg, w1)" "prelude w w1"
  | (loop) cands w1 where
      "resourcevlanCreate s d w = vlan_attempts s d cands w1" "prelude w w1"
proof (cases "request_id d > 0")
  case True
  then have "resourcevlanCreate s d w =
      (Inl (Panic ''interface conversion: interface {} is int, not string''), w)"
    by (simp add: resourcevlanCreate_def vlan_Get_def)
  then show thesis using prelude_refl by (rule early)
next
  case False
  obtain r1 w1 where c1: "call_vlanidfindfree s (vlan_domain d) w = (r1, w1)"
    by (cases "call_vlanidfindfree s (vlan_domain d) w")
  have p1: "prelude w w1"
    using prelude_refl call_vlanidfindfree_trace [OF c1] by (rule prelude_step [OF _ disjI2]) simp_all
  show thesis
  proof (cases r1)
    case (Inl e)
    with c1 False have "resourcevlanCreate s d w = (Inl (FromErr e), w1)"
      by (simp add: resourcevlanCreate_def vlan_Get_def)
    then show thesis using p1 by (rule early)
  next
    case (Inr cands)
    with c1 False have "resourcevlanCreate s d w = vlan_attempts s d cands w1"
      by (simp add: resourcevlanCreate_def vlan_Get_def)
    then show thesis using p1 by (rule loop)
  qed
qed

section \<open>Transport errors\<close>

lemma attempts_after_prelude_failure:
  assumes "attempt_loop s sl pn msg L" "prelude w w3"
    and "ev \<in> set (new_events w (snd (L cands w3)))" "transport_failure ev = Some e"
  shows "fst (L cands w3) = Inl (FromErr e) \<and> last (trace (snd (L cands w3))) = ev"
  using assms(3,4) prelude_quiet [OF assms(2)]
  by (intro attempt_loop_failure [OF assms(1) prelude_le [OF assms(2)]])
     (simp_all add: new_events_def)

lemma early_exit_no_failure:
  assumes "prelude w w1" "ev \<in> set (new_events w w1)"
  shows "transport_failure ev = None"
  using prelude_quiet [OF assms(1)] assms(2) by (simp add: new_events_def)

text \<open>C5.  In each of the three creations, a request of the run that came back with a
  transport error \<open>e\<close> (\<open>err != nil\<close>) is the last event of the record, so no other
  candidate was tried after it, and the creation returns that very error.\<close>

theorem transport_error_aborts:
  "(\<forall>ev e. ev \<in> set (new_events w (snd (resourceipsubnetCreate s d4 w))) \<and>
            transport_failure ev = Some e \<longrightarrow>
        fst (resourceipsubnetCreate s d4 w) = Inl (FromErr e) \<and>
        last (trace (snd (resourceipsubnetCreate s d4 w))) = ev) \<and>
   (\<forall>ev e. ev \<in> set (new_events w (snd (resourceip6subnetCreate s d6 w))) \<and>
            transport_failure ev = Some e \<longrightarrow>
        fst (resourceip6subnetCreate s d6 w) = Inl (FromErr e) \<and>
        last (trace (snd (resourceip6subnetCreate s d6 w))) = ev) \<and>
   (\<forall>ev e. ev \<in> set (new_events w (snd (resourcevlanCreate s dv w))) \<and>
            transport_failure ev = Some e \<longrightarrow>
        fst (resourcevlanCreate s dv w) = Inl (FromErr e) \<and>
        last (trace (snd (resourcevlanCreate s dv w))) = ev)"
proof (intro conjI [where Q = "_ \<and> _"] conjI [where P = "All _" and Q = "All _"] allI impI; elim conjE)
  fix ev e
  assume ev: "ev \<in> set (new_events w (snd (resourceipsubnetCreate s d4 w)))"
    and e: "transport_failure ev = Some e"
  show "fst (resourceipsubnetCreate s d4 w) = Inl (FromErr e) \<and>
        last (trace (snd (resourceipsubnetCreate s d4 w))) = ev"
  proof (cases rule: resourceipsubnetCreate_cases [of s d4 w])
    case (early dg w1)
    with ev e early_exit_no_failure [of w w1 ev] show ?thesis by simp
  next
    case (loop siteID blockInfo cands w3)
    with ev e attempts_after_prelude_failure [OF ipsubnet_attempts_loop loop(2), where ev = ev and cands = cands and e = e]
    show ?thesis by simp
  qed
next
  fix ev e
  assume ev: "ev \<in> set (new_events w (snd (resourceip6subnetCreate s d6 w)))"
    and e: "transport_failure ev = Some e"
  show "fst (resourceip6subnetCreate s d6 w) = Inl (FromErr e) \<and>
        last (trace (snd (resourceip6subnetCreate s d6 w))) = ev"
  proof (cases rule: resourceip6subnetCreate_cases [of s d6 w])
    case (early dg w1)
    with ev e early_exit_no_failure [of w w1 ev] show ?thesis by simp
  next
    case (loop siteID cands w3)
    with ev e attempts_after_prelude_failure [OF ip6subnet_attempts_loop loop(2), where ev = ev and cands = cands and e = e]
    show ?thesis by simp
  qed
next
  fix ev e
  assume ev: "ev \<in> set (new_events w (snd (resourcevlanCreate s dv w)))"
    and e: "transport_failure ev = Some e"
  show "fst (resourcevlanCreate s dv w) = Inl (FromErr e) \<and>
        last (trace (snd (resourcevlanCreate s dv w))) = ev"
  proof (cases rule: resourcevlanCreate_cases [of s dv w])
    case (early dg w1)
    with ev e early_exit_no_failure [of w w1 ev] show ?thesis by simp
  next
    case (loop cands w3)
    with ev e attempts_after_prelude_failure [OF vlan_attempts_loop loop(2), where ev = ev and cands = cands and e = e]
    show ?thesis by simp
  qed
qed

theorem transport_error_aborts_witness:
  "(last (trace (snd (resourceipsubnetCreate (scripted candidates4 [taken, unreachable])
                        (subnet_request ''net'' True 24 0) fresh)))
      \<in> set (new_events fresh (snd (resourceipsubnetCreate (scripted candidates4 [taken, unreachable])
                        (subnet_request ''net'' True 24 0) fresh))) \<and>
    transport_failure (last (trace (snd (resourceipsubnetCreate (scripted candidates4 [taken, unreachable])
                        (subnet_request ''net'' True 24 0) fresh)))) = Some ''connection refused'' \<and>
    length (requests (new_events fresh (snd (resourceipsubnetCreate
                        (scripted candidates4 [taken, unreachable])
                        (subnet_request ''net'' True 24 0) fresh)))) = 2 \<and>
    fst (resourceipsubnetCreate (scripted candidates4 [taken, unreachable])
           (subnet_request ''net'' True 24 0) fresh) = Inl (FromErr ''connection refused'')) \<and>
   (last (trace (snd (resourceip6subnetCreate (scripted candidates6 [taken, unreachable])
                        (subnet6_request ''net'' True 120 0) fresh)))
      \<in> set (new_events fresh (snd (resourceip6subnetCreate (scripted candidates6 [taken, unreachable])
                        (subnet6_request ''net'' True 120 0) fresh))) \<and>
    transport_failure (last (trace (snd (resourceip6subnetCreate (scripted candidates6 [taken, unreachable])
                        (subnet6_request ''net'' True 120 0) fresh)))) = Some ''connection refused'' \<and>
    length (requests (new_events fresh (snd (resourceip6subnetCreate
                        (scripted candidates6 [taken, unreachable])
                        (subnet6_request ''net'' True 120 0) fresh)))) = 2 \<and>
    fst (resourceip6subnetCreate (scripted candidates6 [taken, unreachable])
           (subnet6_request ''net'' True 120 0) fresh) = Inl (FromErr ''connection refused'')) \<and>
   (last (trace (snd (resourcevlanCreate (scripted candidatesv [taken, unreachable])
                        (vlan_request 0) fresh)))
      \<in> set (new_events fresh (snd (resourcevlanCreate (scripted candidatesv [taken, unreachable])
                        (vlan_request 0) fresh))) \<and>
    transport_failure (last (trace (snd (resourcevlanCreate (scripted candidatesv [taken, unreachable])
                        (vlan_request 0) fresh)))) = Some ''connection refused'' \<and>
    length (requests (new_events fresh (snd (resourcevlanCreate
                        (scripted candidatesv [taken, unreachable])
                        (vlan_request 0) fresh)))) = 2 \<and>
    fst (resourcevlanCreate (scripted candidatesv [taken, unreachable])
           (vlan_request 0) fresh) = Inl (FromErr ''connection refused''))"
proof -
  have h4: "last (trace (snd (resourceipsubnetCreate (scripted candidates4 [taken, unreachable])
                        (subnet_request ''net'' True 24 0) fresh)))
      \<in> set (new_events fresh (snd (resourceipsubnetCreate (scripted candidates4 [taken, unreachable])
                        (subnet_request ''net'' True 24 0) fresh))) \<and>
    transport_failure (last (trace (snd (resourceipsubnetCreate (scripted candidates4 [taken, unreachable])
                        (subnet_request ''net'' True 24 0) fresh)))) = Some ''connection refused'' \<and>
    length (requests (new_events fresh (snd (resourceipsubnetCreate
                        (scripted candidates4 [taken, unreachable])
                        (subnet_request ''net'' True 24 0) fresh)))) = 2"
    by code_simp
  have h6: "last (trace (snd (resourceip6subnetCreate (scripted candidates6 [taken, unreachable])
                        (subnet6_request ''net'' True 120 0) fresh)))
      \<in> set (new_events fresh (snd (resourceip6subnetCreate (scripted candidates6 [taken, unreachable])
                        (subnet6_request ''net'' True 120 0) fresh))) \<and>
    transport_failure (last (trace (snd (resourceip6subnetCreate (scripted candidates6 [taken, unreachable])
                        (subnet6_request ''net'' True 120 0) fresh)))) = Some ''connection refused'' \<and>
    length (requests (new_events fresh (snd (resourceip6subnetCreate
                        (scripted candidates6 [taken, unreachable])
                        (subnet6_request ''net'' True 120 0) fresh)))) = 2"
    by code_simp
  have hv: "last (trace (snd (resourcevlanCreate (scripted candidatesv [taken, unreachable])
                        (vlan_request 0) fresh)))
      \<in> set (new_events fresh (snd (resourcevlanCreate (scripted candidatesv [taken, unreachable])
                        (vlan_request 0) fresh))) \<and>
    transport_failure (last (trace (snd (resourcevlanCreate (scripted candidatesv [taken, unreachable])
                        (vlan_request 0) fresh)))) = Some ''connection refused'' \<and>
    length (requests (new_events fresh (snd (resourcevlanCreate
                        (scripted candidatesv [taken, unreachable])
                        (vlan_request 0) fresh)))) = 2"
    by code_simp
  note aborts = transport_error_aborts [of fresh]
  from h4 aborts [of "scripted candidates4 [taken, unreachable]" "subnet_request ''net'' True 24 0"]
  have c4: "fst (resourceipsubnetCreate (scripted candidates4 [taken, unreachable])
           (subnet_request ''net'' True 24 0) fresh) = Inl (FromErr ''connection refused'')"
    by blast
  from h6 aborts [of "scripted candidates6 [taken, unreachable]" _ "subnet6_request ''net'' True 120 0"]
  have c6: "fst (resourceip6subnetCreate (scripted candidates6 [taken, unreachable])
           (subnet6_request ''net'' True 120 0) fresh) = Inl (FromErr ''connection refused'')"
    by blast
  from hv aborts [of "scripted candidatesv [taken, unreachable]" _ _ "vlan_request 0"]
  have cv: "fst (resourcevlanCreate (scripted candidatesv [taken, unreachable])
           (vlan_request 0) fresh) = Inl (FromErr ''connection refused'')"
    by blast
  from h4 h6 hv c4 c6 cv show ?thesis by blast
qed

section \<open>Exhaustion\<close>



section \<open>Success\<close>

lemma attempts_after_prelude_success:
  assumes "attempt_loop s sl pn msg L" "prelude w w3"
  shows "((\<exists>d'. fst (L cands w3) = Inr d')
            \<longleftrightarrow> (\<exists>ev\<in>set (new_events w (snd (L cands w3))). reserved_by ev \<noteq> None)) \<and>
         (\<forall>d'. fst (L cands w3) = Inr d' \<longrightarrow>
            reserved_by (last (trace (snd (L cands w3)))) = Some (resource_Id d'))"
  unfolding new_events_def
  using prelude_quiet [OF assms(2)]
  by (intro attempt_loop_success [OF assms(1) prelude_le [OF assms(2)]]) simp

lemma early_exit_no_success:
  assumes "prelude w w1"
  shows "((\<exists>d'. fst (Inl dg :: diagnostics + 'a resource_data_scheme, w1) = Inr d')
            \<longleftrightarrow> (\<exists>ev\<in>set (new_events w (snd (Inl dg :: diagnostics + 'a resource_data_scheme, w1))). reserved_by ev \<noteq> None)) \<and>
         (\<forall>d'. fst (Inl dg :: diagnostics + 'a resource_data_scheme, w1) = Inr d' \<longrightarrow>
            reserved_by (last (trace (snd (Inl dg :: diagnostics + 'a resource_data_scheme, w1)))) = Some (resource_Id d'))"
  using prelude_quiet [OF assms] by (auto simp: new_events_def)

text \<open>C7.  Each of the three creations returns a resource (success) exactly when some
  request of the run was answered without transport error, with status 200 or 201 and a
  \<open>ret_oid\<close>; that request is then the last event of the record, and the id of the
  resource returned is that \<open>ret_oid\<close>.\<close>

theorem success_iff_reserved:
  "(((\<exists>d'. fst (resourceipsubnetCreate s d4 w) = Inr d')
       \<longleftrightarrow> (\<exists>ev\<in>set (new_events w (snd (resourceipsubnetCreate s d4 w))). reserved_by ev \<noteq> None)) \<and>
    (\<forall>d'. fst (resourceipsubnetCreate s d4 w) = Inr d' \<longrightarrow>
       reserved_by (last (trace (snd (resourceipsubnetCreate s d4 w)))) = Some (resource_Id d'))) \<and>
   (((\<exists>d'. fst (resourceip6subnetCreate s d6 w) = Inr d')
       \<longleftrightarrow> (\<exists>ev\<in>set (new_events w (snd (resourceip6subnetCreate s d6 w))). reserved_by ev \<noteq> None)) \<and>
    (\<forall>d'. fst (resourceip6subnetCreate s d6 w) = Inr d' \<longrightarrow>
       reserved_by (last (trace (snd (resourceip6subnetCreate s d6 w)))) = Some (resource_Id d'))) \<and>
   (((\<exists>d'. fst (resourcevlanCreate s dv w) = Inr d')
       \<longleftrightarrow> (\<exists>ev\<in>set (new_events w (snd (resourcevlanCreate s dv w))). reserved_by ev \<noteq> None)) \<and>
    (\<forall>d'. fst (resourcevlanCreate s dv w) = Inr d' \<longrightarrow>
       reserved_by (last (trace (snd (resourcevlanCreate s dv w)))) = Some (resource_Id d')))"
proof -
  have v4: "((\<exists>d'. fst (resourceipsubnetCreate s d4 w) = Inr d')
       \<longleftrightarrow> (\<exists>ev\<in>set (new_events w (snd (resourceipsubnetCreate s d4 w))). reserved_by ev \<noteq> None)) \<and>
    (\<forall>d'. fst (resourceipsubnetCreate s d4 w) = Inr d' \<longrightarrow>
       reserved_by (last (trace (snd (resourceipsubnetCreate s d4 w)))) = Some (resource_Id d'))"
  proof (cases rule: resourceipsubnetCreate_cases [of s d4 w])
    case (early dg w1)
    show ?thesis unfolding early(1) by (rule early_exit_no_success [OF early(2)])
  next
    case (loop siteID blockInfo cands w3)
    show ?thesis unfolding loop(1)
      by (rule attempts_after_prelude_success [OF ipsubnet_attempts_loop loop(2)])
  qed
  have v6: "((\<exists>d'. fst (resourceip6subnetCreate s d6 w) = Inr d')
       \<longleftrightarrow> (\<exists>ev\<in>set (new_events w (snd (resourceip6subnetCreate s d6 w))). reserved_by ev \<noteq> None)) \<and>
    (\<forall>d'. fst (resourceip6subnetCreate s d6 w) = Inr d' \<longrightarrow>
       reserved_by (last (trace (snd (resourceip6subnetCreate s d6 w)))) = Some (resource_Id d'))"
  proof (cases rule: resourceip6subnetCreate_cases [of s d6 w])
    case (early dg w1)
    show ?thesis unfolding early(1) by (rule early_exit_no_success [OF early(2)])
  next
    case (loop siteID cands w3)
    show ?thesis unfolding loop(1)
      by (rule attempts_after_prelude_success [OF ip6subnet_attempts_loop loop(2)])
  qed
  have vl: "((\<exists>d'. fst (resourcevlanCreate s dv w) = Inr d')
       \<longleftrightarrow> (\<exists>ev\<in>set (new_events w (snd (resourcevlanCreate s dv w))). reserved_by ev \<noteq> None)) \<and>
    (\<forall>d'. fst (resourcevlanCreate s dv w) = Inr d' \<longrightarrow>
       reserved_by (last (trace (snd (resourcevlanCreate s dv w)))) = Some (resource_Id d'))"
  proof (cases rule: resourcevlanCreate_cases [of s dv w])
    case (early dg w1)
    show ?thesis unfolding early(1) by (rule early_exit_no_success [OF early(2)])
  next
    case (loop cands w3)
    show ?thesis unfolding loop(1)
      by (rule attempts_after_prelude_success [OF vlan_attempts_loop loop(2)])
  qed
  from v4 v6 vl show ?thesis by (intro conjI) blast+
qed

theorem success_iff_reserved_witness:
  "(map_sum id resource_Id
      (fst (resourceipsubnetCreate (scripted candidates4 [taken, created ''55''])
              (subnet_request ''net'' True 24 0) fresh)) = Inr ''55'' \<and>
    reserved_by (last (trace (snd (resourceipsubnetCreate (scripted candidates4 [taken, created ''55''])
              (subnet_request ''net'' True 24 0) fresh)))) = Some ''55'' \<and>
    (\<exists>ev\<in>set (new_events fresh (snd (resourceipsubnetCreate
              (scripted candidates4 [taken, created ''55''])
              (subnet_request ''net'' True 24 0) fresh))). reserved_by ev \<noteq> None)) \<and>
   (map_sum id resource_Id
      (fst (resourceip6subnetCreate (scripted candidates6 [taken, created ''66''])
              (subnet6_request ''net'' True 120 0) fresh)) = Inr ''66'' \<and>
    reserved_by (last (trace (snd (resourceip6subnetCreate (scripted candidates6 [taken, created ''66''])
              (subnet6_request ''net'' True 120 0) fresh)))) = Some ''66'' \<and>
    (\<exists>ev\<in>set (new_events fresh (snd (resourceip6subnetCreate
              (scripted candidates6 [taken, created ''66''])
              (subnet6_request ''net'' True 120 0) fresh))). reserved_by ev \<noteq> None)) \<and>
   (map_sum id resource_Id
      (fst (resourcevlanCreate (scripted candidatesv [taken, created ''77''])
              (vlan_request 0) fresh)) = Inr ''77'' \<and>
    reserved_by (last (trace (snd (resourcevlanCreate (scripted candidatesv [taken, created ''77''])
              (vlan_request 0) fresh)))) = Some ''77'' \<and>
    (\<exists>ev\<in>set (new_events fresh (snd (resourcevlanCreate
              (scripted candidatesv [taken, created ''77''])
              (vlan_request 0) fresh))). reserved_by ev \<noteq> None))"
proof -
  note iff = success_iff_reserved [of _ _ fresh]
  have "map_sum id resource_Id
      (fst (resourceipsubnetCreate (scripted candidates4 [taken, created ''55''])
              (subnet_request ''net'' True 24 0) fresh)) = Inr ''55''"
    by code_simp
  then have h4: "\<exists>d'. fst (resourceipsubnetCreate (scripted candidates4 [taken, created ''55''])
              (subnet_request ''net'' True 24 0) fresh) = Inr d' \<and> resource_Id d' = ''55''"
    by (cases "fst (resourceipsubnetCreate (scripted candidates4 [taken, created ''55''])
              (subnet_request ''net'' True 24 0) fresh)") auto
  have "map_sum id resource_Id
      (fst (resourceip6subnetCreate (scripted candidates6 [taken, created ''66''])
              (subnet6_request ''net'' True 120 0) fresh)) = Inr ''66''"
    by code_simp
  then have h6: "\<exists>d'. fst (resourceip6subnetCreate (scripted candidates6 [taken, created ''66''])
              (subnet6_request ''net'' True 120 0) fresh) = Inr d' \<and> resource_Id d' = ''66''"
    by (cases "fst (resourceip6subnetCreate (scripted candidates6 [taken, created ''66''])
              (subnet6_request ''net'' True 120 0) fresh)") auto
  have "map_sum id resource_Id
      (fst (resourcevlanCreate (scripted candidatesv [taken, created ''77''])
              (vlan_request 0) fresh)) = Inr ''77''"
    by code_simp
  then have hv: "\<exists>d'. fst (resourcevlanCreate (scripted candidatesv [taken, created ''77''])
              (vlan_request 0) fresh) = Inr d' \<and> resource_Id d' = ''77''"
    by (cases "fst (resourcevlanCreate (scripted candidatesv [taken, created ''77''])
              (vlan_request 0) fresh)") auto
  from h4 iff [of "scripted candidates4 [taken, created ''55'']" "subnet_request ''net'' True 24 0"]
  have c4: "map_sum id resource_Id
      (fst (resourceipsubnetCreate (scripted candidates4 [taken, created ''55''])
              (subnet_request ''net'' True 24 0) fresh)) = Inr ''55'' \<and>
    reserved_by (last (trace (snd (resourceipsubnetCreate (scripted candidates4 [taken, created ''55''])
              (subnet_request ''net'' True 24 0) fresh)))) = Some ''55'' \<and>
    (\<exists>ev\<in>set (new_events fresh (snd (resourceipsubnetCreate
              (scripted candidates4 [taken, created ''55''])
              (subnet_request ''net'' True 24 0) fresh))). reserved_by ev \<noteq> None)"
    by (elim exE conjE) simp
  from h6 iff [of "scripted candidates6 [taken, created ''66'']" _ "subnet6_request ''net'' True 120 0"]
  have c6: "map_sum id resource_Id
      (fst (resourceip6subnetCreate (scripted candidates6 [taken, created ''66''])
              (subnet6_request ''net'' True 120 0) fresh)) = Inr ''66'' \<and>
    reserved_by (last (trace (snd (resourceip6subnetCreate (scripted candidates6 [taken, created ''66''])
              (subnet6_request ''net'' True 120 0) fresh)))) = Some ''66'' \<and>
    (\<exists>ev\<in>set (new_events fresh (snd (resourceip6subnetCreate
              (scripted candidates6 [taken, created ''66''])
              (subnet6_request ''net'' True 120 0) fresh))). reserved_by ev \<noteq> None)"
    by (elim exE conjE) simp
  from hv iff [of "scripted candidatesv [taken, created ''77'']" _ _ "vlan_request 0"]
  have cv: "map_sum id resource_Id
      (fst (resourcevlanCreate (scripted candidatesv [taken, created ''77''])
              (vlan_request 0) fresh)) = Inr ''77'' \<and>
    reserved_by (last (trace (snd (resourcevlanCreate (scripted candidatesv [taken, created ''77''])
              (vlan_request 0) fresh)))) = Some ''77'' \<and>
    (\<exists>ev\<in>set (new_events fresh (snd (resourcevlanCreate
              (scripted candidatesv [taken, created ''77''])
              (vlan_request 0) fresh))). reserved_by ev \<noteq> None)"
    by (elim exE conjE) simp
  from c4 c6 cv show ?thesis by blast
qed

section \<open>Top-level blocks\<close>

text \<open>C10.  An IPv4 or IPv6 subnet creation without parent block (\<open>block\<close> empty) and with
  \<open>terminal = true\<close> looks the space up and then fails: with the lookup's error, or with
  "Can't create a terminal ... block subnet".  The lookup of the space is the only event
  of the run: no candidate search and no request.\<close>

theorem terminal_block_refused:
  "(block d4 = [] \<and> terminal d4 \<longrightarrow>
     new_events w (snd (resourceipsubnetCreate s d4 w)) = [Lookup ''ipsiteidbyname'' [space d4]] \<and>
     fst (resourceipsubnetCreate s d4 w) =
       (case fst (ipsiteidbyname s (space d4) (inventory w)) of
          Inl siteErr \<Rightarrow> Inl (FromErr siteErr)
        | Inr siteID \<Rightarrow> Inl (Errorf (''Can't create a terminal IP block subnet: '' @ name d4)))) \<and>
   (block d6 = [] \<and> terminal d6 \<longrightarrow>
     new_events w (snd (resourceip6subnetCreate s d6 w)) = [Lookup ''ipsiteidbyname'' [space d6]] \<and>
     fst (resourceip6subnetCreate s d6 w) =
       (case fst (ipsiteidbyname s (space d6) (inventory w)) of
          Inl siteErr \<Rightarrow> Inl (FromErr siteErr)
        | Inr siteID \<Rightarrow> Inl (Errorf (''Can't create a terminal IPv6 block subnet: '' @ name d6))))"
proof -
  have v4: "new_events w (snd (resourceipsubnetCreate s d4 w)) = [Lookup ''ipsiteidbyname'' [space d4]] \<and>
     fst (resourceipsubnetCreate s d4 w) =
       (case fst (ipsiteidbyname s (space d4) (inventory w)) of
          Inl siteErr \<Rightarrow> Inl (FromErr siteErr)
        | Inr siteID \<Rightarrow> Inl (Errorf (''Can't create a terminal IP block subnet: '' @ name d4)))"
    if "block d4 = []" "terminal d4"
    using that
    by (auto simp: resourceipsubnetCreate_def call_ipsiteidbyname_def perform_def
        ipsubnet_blockInfo_def new_events_def Let_def split: prod.splits sum.splits)
  have v6: "new_events w (snd (resourceip6subnetCreate s d6 w)) = [Lookup ''ipsiteidbyname'' [space d6]] \<and>
     fst (resourceip6subnetCreate s d6 w) =
       (case fst (ipsiteidbyname s (space d6) (inventory w)) of
          Inl siteErr \<Rightarrow> Inl (FromErr siteErr)
        | Inr siteID \<Rightarrow> Inl (Errorf (''Can't create a terminal IPv6 block subnet: '' @ name d6)))"
    if "block d6 = []" "terminal d6"
    using that
    by (auto simp: resourceip6subnetCreate_def call_ipsiteidbyname_def perform_def
        ip6subnet_blockInfo_def new_events_def Let_def split: prod.splits sum.splits)
  from v4 v6 show ?thesis by blast
qed

theorem terminal_block_refused_witness:
  "block (subnet_request [] True 24 0) = [] \<and> terminal (subnet_request [] True 24 0) \<and>
   new_events fresh (snd (resourceipsubnetCreate (scripted candidates4 [created ''55''])
                            (subnet_request [] True 24 0) fresh))
     = [Lookup ''ipsiteidbyname'' [''Local'']] \<and>
   fst (resourceipsubnetCreate (scripted candidates4 [created ''55''])
          (subnet_request [] True 24 0) fresh)
     = Inl (Errorf ''Can't create a terminal IP block subnet: lan'') \<and>
   block (subnet6_request [] True 120 0) = [] \<and> terminal (subnet6_request [] True 120 0) \<and>
   new_events fresh (snd (resourceip6subnetCreate (scripted candidates6 [created ''66''])
                            (subnet6_request [] True 120 0) fresh))
     = [Lookup ''ipsiteidbyname'' [''Local'']] \<and>
   fst (resourceip6subnetCreate (scripted candidates6 [created ''66''])
          (subnet6_request [] True 120 0) fresh)
     = Inl (Errorf ''Can't create a terminal IPv6 block subnet: lan6'')"
proof -
  have h4: "block (subnet_request [] True 24 0) = [] \<and> terminal (subnet_request [] True 24 0)"
    by (simp add: subnet_request_def)
  have h6: "block (subnet6_request [] True 120 0) = [] \<and> terminal (subnet6_request [] True 120 0)"
    by (simp add: subnet6_request_def)
  have site: "fst (ipsiteidbyname (scripted cs script) nm st) = Inr ''7''" for cs script nm st
    by (simp add: scripted_def)
  have nm: "name (subnet_request [] True 24 0) = ''lan''" "space (subnet_request [] True 24 0) = ''Local''"
    "name (subnet6_request [] True 120 0) = ''lan6''" "space (subnet6_request [] True 120 0) = ''Local''"
    by (simp_all add: subnet_request_def subnet6_request_def)
  from terminal_block_refused [of "subnet_request [] True 24 0" fresh
      "scripted candidates4 [created ''55'']"] h4 site nm
  have c4: "new_events fresh (snd (resourceipsubnetCreate (scripted candidates4 [created ''55''])
                            (subnet_request [] True 24 0) fresh))
     = [Lookup ''ipsiteidbyname'' [''Local'']] \<and>
   fst (resourceipsubnetCreate (scripted candidates4 [created ''55''])
          (subnet_request [] True 24 0) fresh)
     = Inl (Errorf ''Can't create a terminal IP block subnet: lan'')"
    by simp
  from terminal_block_refused [of _ fresh "scripted candidates6 [created ''66'']"
      "subnet6_request [] True 120 0"] h6 site nm
  have c6: "new_events fresh (snd (resourceip6subnetCreate (scripted candidates6 [created ''66''])
                            (subnet6_request [] True 120 0) fresh))
     = [Lookup ''ipsiteidbyname'' [''Local'']] \<and>
   fst (resourceip6subnetCreate (scripted candidates6 [created ''66''])
          (subnet6_request [] True 120 0) fresh)
     = Inl (Errorf ''Can't create a terminal IPv6 block subnet: lan6'')"
    by simp
  from h4 h6 c4 c6 show ?thesis by blast
qed

section \<open>The delay before a request\<close>

text \<open>C9, as the code has it.  In the IPv4 and IPv6 subnet creations every request of the
  run comes right after a \<open>time.Sleep\<close> of \<open>rand.Intn(1000)\<close> milliseconds, so of less than
  one second.  The VLAN creation never sleeps: its loop sends each request at once.\<close>

theorem delay_before_subnet_requests:
  "delayed_requests (new_events w (snd (resourceipsubnetCreate s d4 w))) \<and>
   delayed_requests (new_events w (snd (resourceip6subnetCreate s d6 w))) \<and>
   (\<forall>ev\<in>set (new_events w (snd (resourcevlanCreate s dv w))). \<not> is_sleep ev)"
proof (intro conjI)
  show "delayed_requests (new_events w (snd (resourceipsubnetCreate s d4 w)))"
  proof (cases rule: resourceipsubnetCreate_cases [of s d4 w])
    case (early dg w1)
    then show ?thesis by (simp add: new_events_def prelude_delayed)
  next
    case (loop siteID blockInfo cands w3)
    show ?thesis unfolding loop(1) new_events_def
      by (rule attempt_loop_delayed [OF ipsubnet_attempts_loop prelude_le [OF loop(2)]
            prelude_delayed [OF loop(2)]])
  qed
next
  show "delayed_requests (new_events w (snd (resourceip6subnetCreate s d6 w)))"
  proof (cases rule: resourceip6subnetCreate_cases [of s d6 w])
    case (early dg w1)
    then show ?thesis by (simp add: new_events_def prelude_delayed)
  next
    case (loop siteID cands w3)
    show ?thesis unfolding loop(1) new_events_def
      by (rule attempt_loop_delayed [OF ip6subnet_attempts_loop prelude_le [OF loop(2)]
            prelude_delayed [OF loop(2)]])
  qed
next
  show "\<forall>ev\<in>set (new_events w (snd (resourcevlanCreate s dv w))). \<not> is_sleep ev"
  proof (cases rule: resourcevlanCreate_cases [of s dv w])
    case (early dg w1)
    with prelude_quiet [OF early(2)] show ?thesis by (simp add: new_events_def)
  next
    case (loop cands w1)
    from prelude_quiet [OF loop(2)]
    have "\<forall>ev\<in>set (drop (length (trace w)) (trace w1)). \<not> is_sleep ev" by simp
    from attempt_loop_no_sleep [OF vlan_attempts_loop prelude_le [OF loop(2)] this]
    show ?thesis unfolding loop(1) new_events_def .
  qed
qed

theorem delay_before_subnet_requests_witness:
  "(4 \<in> {0 ..< length (new_events fresh (snd (resourceipsubnetCreate
              (scripted candidates4 [created ''55'']) (subnet_request ''net'' True 24 0) fresh)))} \<and>
    is_request (new_events fresh (snd (resourceipsubnetCreate
              (scripted candidates4 [created ''55'']) (subnet_request ''net'' True 24 0) fresh)) ! 4) \<and>
    short_sleep (new_events fresh (snd (resourceipsubnetCreate
              (scripted candidates4 [created ''55'']) (subnet_request ''net'' True 24 0) fresh)) ! 3)) \<and>
   (4 \<in> {0 ..< length (new_events fresh (snd (resourceip6subnetCreate
              (scripted candidates6 [created ''66'']) (subnet6_request ''net'' True 120 0) fresh)))} \<and>
    is_request (new_events fresh (snd (resourceip6subnetCreate
              (scripted candidates6 [created ''66'']) (subnet6_request ''net'' True 120 0) fresh)) ! 4) \<and>
    short_sleep (new_events fresh (snd (resourceip6subnetCreate
              (scripted candidates6 [created ''66'']) (subnet6_request ''net'' True 120 0) fresh)) ! 3)) \<and>
   (new_events fresh (snd (resourcevlanCreate (scripted candidatesv [created ''77''])
              (vlan_request 0) fresh)) ! 1
      \<in> set (new_events fresh (snd (resourcevlanCreate (scripted candidatesv [created ''77''])
              (vlan_request 0) fresh))) \<and>
    is_request (new_events fresh (snd (resourcevlanCreate (scripted candidatesv [created ''77''])
              (vlan_request 0) fresh)) ! 1) \<and>
    \<not> is_sleep (new_events fresh (snd (resourcevlanCreate (scripted candidatesv [created ''77''])
              (vlan_request 0) fresh)) ! 1))"
proof -
  note delay = delay_before_subnet_requests [of fresh, unfolded delayed_requests_def]
  have h4: "4 \<in> {0 ..< length (new_events fresh (snd (resourceipsubnetCreate
              (scripted candidates4 [created ''55'']) (subnet_request ''net'' True 24 0) fresh)))} \<and>
    is_request (new_events fresh (snd (resourceipsubnetCreate
              (scripted candidates4 [created ''55'']) (subnet_request ''net'' True 24 0) fresh)) ! 4)"
    by code_simp
  have h6: "4 \<in> {0 ..< length (new_events fresh (snd (resourceip6subnetCreate
              (scripted candidates6 [created ''66'']) (subnet6_request ''net'' True 120 0) fresh)))} \<and>
    is_request (new_events fresh (snd (resourceip6subnetCreate
              (scripted candidates6 [created ''66'']) (subnet6_request ''net'' True 120 0) fresh)) ! 4)"
    by code_simp
  have hv: "new_events fresh (snd (resourcevlanCreate (scripted candidatesv [created ''77''])
              (vlan_request 0) fresh)) ! 1
      \<in> set (new_events fresh (snd (resourcevlanCreate (scripted candidatesv [created ''77''])
              (vlan_request 0) fresh))) \<and>
    is_request (new_events fresh (snd (resourcevlanCreate (scripted candidatesv [created ''77''])
              (vlan_request 0) fresh)) ! 1)"
    by code_simp
  from h4 delay [of "scripted candidates4 [created ''55'']" "subnet_request ''net'' True 24 0"]
  have c4: "short_sleep (new_events fresh (snd (resourceipsubnetCreate
              (scripted candidates4 [created ''55'']) (subnet_request ''net'' True 24 0) fresh)) ! (4 - 1))"
    by blast
  from h6 delay [of "scripted candidates6 [created ''66'']" _ "subnet6_request ''net'' True 120 0"]
  have c6: "short_sleep (new_events fresh (snd (resourceip6subnetCreate
              (scripted candidates6 [created ''66'']) (subnet6_request ''net'' True 120 0) fresh)) ! (4 - 1))"
    by blast
  from hv delay [of "scripted candidatesv [created ''77'']" _ _ "vlan_request 0"]
  have cv: "\<not> is_sleep (new_events fresh (snd (resourcevlanCreate (scripted candidatesv [created ''77''])
              (vlan_request 0) fresh)) ! 1)"
    by blast
  from c4 c6 have "short_sleep (new_events fresh (snd (resourceipsubnetCreate
              (scripted candidates4 [created ''55'']) (subnet_request ''net'' True 24 0) fresh)) ! 3)"
    "short_sleep (new_events fresh (snd (resourceip6subnetCreate
              (scripted candidates6 [created ''66'']) (subnet6_request ''net'' True 120 0) fresh)) ! 3)"
    by simp_all
  with h4 h6 hv cv show ?thesis by blast
qed

text \<open>C9 as the claim states it fails on the VLAN creation: the run below sends its request
  right after the search, with no sleep before it.\<close>

theorem vlan_request_without_delay:
  "\<not> delayed_requests (new_events fresh (snd (resourcevlanCreate
        (scripted candidatesv [created ''77'']) (vlan_request 0) fresh))) \<and>
   map is_request (new_events fresh (snd (resourcevlanCreate
        (scripted candidatesv [created ''77'']) (vlan_request 0) fresh))) = [False, True] \<and>
   map is_sleep (new_events fresh (snd (resourcevlanCreate
        (scripted candidatesv [created ''77'']) (vlan_request 0) fresh))) = [False, False]"
  by code_simp

section \<open>The gateway of a created subnet\<close>

lemma ipsubnet_attempts_created:
  "fst (ipsubnet_attempts s siteID blockInfo d cands w) = Inr d' \<Longrightarrow>
   \<exists>a\<in>set cands. \<exists>oid. d' = ipsubnet_created d a oid"
  by (induction cands arbitrary: w) (auto split: sum.splits prod.splits option.splits if_splits)

lemma ip6subnet_attempts_created:
  "fst (ip6subnet_attempts s siteID d cands w) = Inr d' \<Longrightarrow>
   \<exists>a\<in>set cands. \<exists>gw oid.
      (if gateway_offset d \<noteq> 0
       then ip6subnet_gateway a (prefix_size d) (gateway_offset d) else Inr []) = Inr gw \<and>
      d' = ip6subnet_created d a gw oid"
  by (induction cands arbitrary: w) (auto split: sum.splits prod.splits option.splits if_splits)

lemma resourceipsubnetCreate_created:
  assumes "fst (resourceipsubnetCreate s d w) = Inr d'"
  shows "\<exists>a oid. d' = ipsubnet_created d a oid"
proof (cases rule: resourceipsubnetCreate_cases [of s d w])
  case (early dg w1)
  with assms show ?thesis by simp
next
  case (loop siteID blockInfo cands w3)
  with assms have "fst (ipsubnet_attempts s siteID blockInfo d cands w3) = Inr d'" by simp
  from ipsubnet_attempts_created [OF this] show ?thesis by blast
qed

lemma resourceip6subnetCreate_created:
  assumes "fst (resourceip6subnetCreate s d w) = Inr d'"
  shows "\<exists>a gw oid.
      (if gateway_offset d \<noteq> 0
       then ip6subnet_gateway a (prefix_size d) (gateway_offset d) else Inr []) = Inr gw \<and>
      d' = ip6subnet_created d a gw oid"
proof (cases rule: resourceip6subnetCreate_cases [of s d w])
  case (early dg w1)
  with assms show ?thesis by simp
next
  case (loop siteID cands w3)
  with assms have "fst (ip6subnet_attempts s siteID d cands w3) = Inr d'" by simp
  from ip6subnet_attempts_created [OF this] show ?thesis by blast
qed

lemma word32_of_int_mod: "(word_of_int (x mod 2 ^ 32) :: 32 word) = word_of_int x"
  by (simp add: word_of_int_eq_iff take_bit_eq_mod)

lemma uint32_from_end:
  "(start :: 32 word) + word_of_int sz - word_of_int off - 1
     = word_of_int ((uint start + sz - off - 1) mod 2 ^ 32)"
  unfolding word32_of_int_mod by simp

lemma uint32_from_start:
  "(start :: 32 word) + word_of_int off = word_of_int ((uint start + off) mod 2 ^ 32)"
  unfolding word32_of_int_mod by simp

lemma ipsubnet_created_fields:
  "gateway_offset d \<noteq> 0 \<Longrightarrow>
   gateway (ipsubnet_created d a oid) = ipsubnet_gateway a (prefix_size d) (gateway_offset d)"
  "address (ipsubnet_created d a oid) = hexiptoip a"
  by (simp_all add: ipsubnet_created_def Let_def)

lemma ip6subnet_created_fields:
  "gateway_offset d \<noteq> 0 \<Longrightarrow> gateway (ip6subnet_created d a gw oid) = gw"
  "address (ip6subnet_created d a gw oid) = hexip6toip6 a"
  by (simp_all add: ip6subnet_created_def Let_def)

text \<open>C1, as the code has it.  A created IPv4 subnet with a negative \<open>gateway_offset\<close>
  records as gateway the address \<open>start + 2^(32 - prefix_size) - |gateway_offset| - 1\<close>
  (on 32 bits), where \<open>start\<close> is the address of the subnet: one below what the claim
  states, so that offset -1 is the last address before the end of the block.\<close>

theorem ipsubnet_negative_offset_gateway:
  "fst (resourceipsubnetCreate s d w) = Inr d' \<and> gateway_offset d < 0 \<longrightarrow>
     gateway d' = longtoip (word_of_int
        ((uint (iptolong (address d')) + 2 ^ nat (32 - prefix_size d) - \<bar>gateway_offset d\<bar> - 1)
           mod 2 ^ 32)) \<and>
     uint (iptolong (gateway d'))
       = (uint (iptolong (address d')) + 2 ^ nat (32 - prefix_size d) - \<bar>gateway_offset d\<bar> - 1)
           mod 2 ^ 32"
proof (intro impI, elim conjE)
  assume ok: "fst (resourceipsubnetCreate s d w) = Inr d'" and neg: "gateway_offset d < 0"
  from resourceipsubnetCreate_created [OF ok]
  obtain a oid where d': "d' = ipsubnet_created d a oid" by blast
  from neg have "gateway d' = ipsubnet_gateway a (prefix_size d) (gateway_offset d)"
    and "address d' = hexiptoip a"
    unfolding d' by (simp_all add: ipsubnet_created_fields)
  with neg have gw: "gateway d' = longtoip (word_of_int
        ((uint (iptolong (address d')) + 2 ^ nat (32 - prefix_size d) - \<bar>gateway_offset d\<bar> - 1)
           mod 2 ^ 32))"
    by (simp only: ipsubnet_gateway_def prefixlengthtosize_def abs_int_def uint32_from_end)
       (simp add: abs_if)
  show "gateway d' = longtoip (word_of_int
        ((uint (iptolong (address d')) + 2 ^ nat (32 - prefix_size d) - \<bar>gateway_offset d\<bar> - 1)
           mod 2 ^ 32)) \<and>
     uint (iptolong (gateway d'))
       = (uint (iptolong (address d')) + 2 ^ nat (32 - prefix_size d) - \<bar>gateway_offset d\<bar> - 1)
           mod 2 ^ 32"
    by (rule conjI [OF gw]) (simp only: gw uint_iptolong_longtoip)
qed

theorem ipsubnet_negative_offset_gateway_witness:
  "gateway_offset (subnet_request [] False 24 (- 1)) < 0 \<and>
   (\<exists>d'. fst (resourceipsubnetCreate (scripted candidates4 [created ''55''])
                 (subnet_request [] False 24 (- 1)) fresh) = Inr d' \<and>
         address d' = ''10.0.0.0'' \<and> gateway d' = ''10.0.0.254'')"
proof -
  have neg: "gateway_offset (subnet_request [] False 24 (- 1)) < 0"
    by (simp add: subnet_request_def)
  have "map_sum id address (fst (resourceipsubnetCreate (scripted candidates4 [created ''55''])
                 (subnet_request [] False 24 (- 1)) fresh)) = Inr ''10.0.0.0''"
    by code_simp
  then obtain d' where
    ok: "fst (resourceipsubnetCreate (scripted candidates4 [created ''55''])
                 (subnet_request [] False 24 (- 1)) fresh) = Inr d'"
    and addr: "address d' = ''10.0.0.0''"
    by (cases "fst (resourceipsubnetCreate (scripted candidates4 [created ''55''])
                 (subnet_request [] False 24 (- 1)) fresh)") auto
  have val: "longtoip (word_of_int
        ((uint (iptolong ''10.0.0.0'') + 2 ^ nat (32 - 24) - \<bar>- 1\<bar> - 1) mod 2 ^ 32)) = ''10.0.0.254''"
    by code_simp
  from ipsubnet_negative_offset_gateway [of "scripted candidates4 [created ''55'']"
      "subnet_request [] False 24 (- 1)" fresh d'] ok neg
  have "gateway d' = longtoip (word_of_int
        ((uint (iptolong (address d')) + 2 ^ nat (32 - prefix_size (subnet_request [] False 24 (- 1)))
          - \<bar>gateway_offset (subnet_request [] False 24 (- 1))\<bar> - 1) mod 2 ^ 32))"
    by blast
  also have "\<dots> = ''10.0.0.254''"
    unfolding addr using val by (simp add: subnet_request_def)
  finally show ?thesis using neg ok addr by blast
qed

text \<open>C1 as the claim states it fails on its own example: for the block 10.0.0.0/24 and
  offset -1 the claim's formula \<open>start + blockSize - |g|\<close> gives 10.0.0.255, and the
  created subnet records 10.0.0.254.\<close>

theorem ipsubnet_offset_minus_one_is_254:
  "map_sum id gateway (fst (resourceipsubnetCreate (scripted candidates4 [created ''55''])
                              (subnet_request [] False 24 (- 1)) fresh)) = Inr ''10.0.0.254'' \<and>
   longtoip (iptolong (hexiptoip ''0a000000'') + 256 - 1) = ''10.0.0.255'' \<and>
   prefixlengthtosize 24 = 256"
  by code_simp

text \<open>C6.  A created IPv6 subnet with a negative \<open>gateway_offset\<close> records as gateway
  \<open>start + 2^(128 - prefix_size) - |gateway_offset|\<close>, computed on unbounded integers,
  where \<open>start\<close> is the value of the reserved candidate, the address of the subnet.\<close>

theorem ip6subnet_negative_offset_gateway:
  "fst (resourceip6subnetCreate s d w) = Inr d' \<and> gateway_offset d < 0 \<longrightarrow>
     (\<exists>a start. address d' = hexip6toip6 a \<and> SetString16 a = Some start \<and>
        gateway d' = hexip6toip6 (BigIntToHexStr
                        (start + 2 ^ nat (128 - prefix_size d) - \<bar>gateway_offset d\<bar>)))"
proof (intro impI, elim conjE)
  assume ok: "fst (resourceip6subnetCreate s d w) = Inr d'" and neg: "gateway_offset d < 0"
  from resourceip6subnetCreate_created [OF ok] neg
  obtain a gw oid where
    gw: "ip6subnet_gateway a (prefix_size d) (gateway_offset d) = Inr gw" and
    d': "d' = ip6subnet_created d a gw oid"
    by auto
  from gw obtain start where start: "SetString16 a = Some start"
    by (cases "SetString16 a") (auto simp: ip6subnet_gateway_def)
  with gw neg have "gw = hexip6toip6 (BigIntToHexStr
                        (start + 2 ^ nat (128 - prefix_size d) - \<bar>gateway_offset d\<bar>))"
    by (auto simp: ip6subnet_gateway_def prefix6lengthtosize_def abs_int_def abs_if)
  with neg start d'
  show "\<exists>a start. address d' = hexip6toip6 a \<and> SetString16 a = Some start \<and>
        gateway d' = hexip6toip6 (BigIntToHexStr
                        (start + 2 ^ nat (128 - prefix_size d) - \<bar>gateway_offset d\<bar>))"
    by (auto simp: ip6subnet_created_fields)
qed

theorem ip6subnet_negative_offset_gateway_witness:
  "gateway_offset (subnet6_request ''net'' True 120 (- 1)) < 0 \<and>
   map_sum id (\<lambda>d'. (address d', gateway d'))
     (fst (resourceip6subnetCreate (scripted candidates6 [created ''66''])
             (subnet6_request ''net'' True 120 (- 1)) fresh))
     = Inr (''2001:0db8:0000:0000:0000:0000:0000:0000'', ''2001:0db8:0000:0000:0000:0000:0000:00ff'') \<and>
   (\<exists>d' a start.
       fst (resourceip6subnetCreate (scripted candidates6 [created ''66''])
              (subnet6_request ''net'' True 120 (- 1)) fresh) = Inr d' \<and>
       address d' = hexip6toip6 a \<and> SetString16 a = Some start \<and>
       gateway d' = hexip6toip6 (BigIntToHexStr (start + 2 ^ nat (128 - 120) - \<bar>- 1\<bar>)))"
proof -
  have neg: "gateway_offset (subnet6_request ''net'' True 120 (- 1)) < 0"
    by (simp add: subnet6_request_def)
  have run: "map_sum id (\<lambda>d'. (address d', gateway d'))
     (fst (resourceip6subnetCreate (scripted candidates6 [created ''66''])
             (subnet6_request ''net'' True 120 (- 1)) fresh))
     = Inr (''2001:0db8:0000:0000:0000:0000:0000:0000'', ''2001:0db8:0000:0000:0000:0000:0000:00ff'')"
    by code_simp
  then obtain d' where
    ok: "fst (resourceip6subnetCreate (scripted candidates6 [created ''66''])
                 (subnet6_request ''net'' True 120 (- 1)) fresh) = Inr d'"
    by (cases "fst (resourceip6subnetCreate (scripted candidates6 [created ''66''])
                 (subnet6_request ''net'' True 120 (- 1)) fresh)") auto
  from ip6subnet_negative_offset_gateway [of "scripted candidates6 [created ''66'']"
      "subnet6_request ''net'' True 120 (- 1)" fresh d'] ok neg
  obtain a start where "address d' = hexip6toip6 a" "SetString16 a = Some start"
    "gateway d' = hexip6toip6 (BigIntToHexStr
        (start + 2 ^ nat (128 - prefix_size (subnet6_request ''net'' True 120 (- 1)))
           - \<bar>gateway_offset (subnet6_request ''net'' True 120 (- 1))\<bar>))"
    by blast
  then have "address d' = hexip6toip6 a \<and> SetString16 a = Some start \<and>
       gateway d' = hexip6toip6 (BigIntToHexStr (start + 2 ^ nat (128 - 120) - \<bar>- 1\<bar>))"
    by (simp add: subnet6_request_def)
  with neg run ok show ?thesis by blast
qed

section \<open>Offsets that leave the block\<close>

text \<open>C2, as the code has it.  Neither creation checks the gateway against the block.  A
  created IPv4 subnet with a non-zero offset records \<open>start + offset\<close>, or for a negative
  offset \<open>start + size - |offset| - 1\<close>, reduced modulo \<open>2^32\<close>; a created IPv6 subnet
  records \<open>start + offset\<close> or \<open>start + size - |offset|\<close> on unbounded integers.  Whether
  the result lies in the block plays no part.\<close>

theorem gateway_offset_unchecked:
  "(fst (resourceipsubnetCreate s d4 w) = Inr d4' \<and> gateway_offset d4 \<noteq> 0 \<longrightarrow>
      gateway d4' = longtoip (word_of_int
        ((if gateway_offset d4 > 0
          then uint (iptolong (address d4')) + gateway_offset d4
          else uint (iptolong (address d4')) + 2 ^ nat (32 - prefix_size d4)
                 - \<bar>gateway_offset d4\<bar> - 1) mod 2 ^ 32)) \<and>
      uint (iptolong (gateway d4')) =
        (if gateway_offset d4 > 0
          then uint (iptolong (address d4')) + gateway_offset d4
          else uint (iptolong (address d4')) + 2 ^ nat (32 - prefix_size d4)
                 - \<bar>gateway_offset d4\<bar> - 1) mod 2 ^ 32) \<and>
   (fst (resourceip6subnetCreate s d6 w) = Inr d6' \<and> gateway_offset d6 \<noteq> 0 \<longrightarrow>
      (\<exists>a start. address d6' = hexip6toip6 a \<and> SetString16 a = Some start \<and>
         gateway d6' = hexip6toip6 (BigIntToHexStr
           (if gateway_offset d6 > 0
            then start + gateway_offset d6
            else start + 2 ^ nat (128 - prefix_size d6) - \<bar>gateway_offset d6\<bar>))))"
proof -
  have v4: "gateway d4' = longtoip (word_of_int
        ((if gateway_offset d4 > 0
          then uint (iptolong (address d4')) + gateway_offset d4
          else uint (iptolong (address d4')) + 2 ^ nat (32 - prefix_size d4)
                 - \<bar>gateway_offset d4\<bar> - 1) mod 2 ^ 32))"
    if ok: "fst (resourceipsubnetCreate s d4 w) = Inr d4'" and nz: "gateway_offset d4 \<noteq> 0"
  proof -
    from resourceipsubnetCreate_created [OF ok]
    obtain a oid where d': "d4' = ipsubnet_created d4 a oid" by blast
    from nz have f: "gateway d4' = ipsubnet_gateway a (prefix_size d4) (gateway_offset d4)"
      "address d4' = hexiptoip a"
      unfolding d' by (simp_all add: ipsubnet_created_fields)
    show ?thesis
    proof (cases "gateway_offset d4 > 0")
      case True
      with f show ?thesis
        by (simp only: ipsubnet_gateway_def uint32_from_start if_True)
    next
      case False
      with f nz show ?thesis
        by (simp only: ipsubnet_gateway_def prefixlengthtosize_def abs_int_def uint32_from_end
              if_False) (simp add: abs_if)
    qed
  qed
  have n4: "uint (iptolong (gateway d4')) =
        (if gateway_offset d4 > 0
          then uint (iptolong (address d4')) + gateway_offset d4
          else uint (iptolong (address d4')) + 2 ^ nat (32 - prefix_size d4)
                 - \<bar>gateway_offset d4\<bar> - 1) mod 2 ^ 32"
    if ok: "fst (resourceipsubnetCreate s d4 w) = Inr d4'" and nz: "gateway_offset d4 \<noteq> 0"
    by (simp only: v4 [OF ok nz] uint_iptolong_longtoip)
  have v6: "\<exists>a start. address d6' = hexip6toip6 a \<and> SetString16 a = Some start \<and>
         gateway d6' = hexip6toip6 (BigIntToHexStr
           (if gateway_offset d6 > 0
            then start + gateway_offset d6
            else start + 2 ^ nat (128 - prefix_size d6) - \<bar>gateway_offset d6\<bar>))"
    if ok: "fst (resourceip6subnetCreate s d6 w) = Inr d6'" and nz: "gateway_offset d6 \<noteq> 0"
  proof -
    from resourceip6subnetCreate_created [OF ok] nz
    obtain a gw oid where
      gw: "ip6subnet_gateway a (prefix_size d6) (gateway_offset d6) = Inr gw" and
      d': "d6' = ip6subnet_created d6 a gw oid"
      by auto
    from gw obtain start where start: "SetString16 a = Some start"
      by (cases "SetString16 a") (auto simp: ip6subnet_gateway_def)
    with gw nz have "gw = hexip6toip6 (BigIntToHexStr
           (if gateway_offset d6 > 0
            then start + gateway_offset d6
            else start + 2 ^ nat (128 - prefix_size d6) - \<bar>gateway_offset d6\<bar>))"
      by (auto simp: ip6subnet_gateway_def prefix6lengthtosize_def abs_int_def abs_if)
    with nz start d' show ?thesis
      by (auto simp: ip6subnet_created_fields)
  qed
  from v4 n4 v6 show ?thesis by blast
qed

theorem gateway_offset_unchecked_witness:
  "gateway_offset (subnet_request [] False 24 256) \<noteq> 0 \<and>
   (\<exists>d'. fst (resourceipsubnetCreate (scripted candidates4 [created ''55''])
                 (subnet_request [] False 24 256) fresh) = Inr d' \<and>
         address d' = ''10.0.0.0'' \<and> gateway d' = ''10.0.1.0'') \<and>
   gateway_offset (subnet6_request ''net'' True 120 256) \<noteq> 0 \<and>
   map_sum id (\<lambda>d'. (address d', gateway d'))
     (fst (resourceip6subnetCreate (scripted candidates6 [created ''66''])
             (subnet6_request ''net'' True 120 256) fresh))
     = Inr (''2001:0db8:0000:0000:0000:0000:0000:0000'', ''2001:0db8:0000:0000:0000:0000:0000:0100'') \<and>
   (\<exists>d' a start.
       fst (resourceip6subnetCreate (scripted candidates6 [created ''66''])
              (subnet6_request ''net'' True 120 256) fresh) = Inr d' \<and>
       address d' = hexip6toip6 a \<and> SetString16 a = Some start \<and>
       gateway d' = hexip6toip6 (BigIntToHexStr (start + 256)))"
proof -
  note inst = gateway_offset_unchecked [of _ _ fresh]
  have nz4: "gateway_offset (subnet_request [] False 24 256) \<noteq> 0"
    by (simp add: subnet_request_def)
  have nz6: "gateway_offset (subnet6_request ''net'' True 120 256) \<noteq> 0"
    by (simp add: subnet6_request_def)
  have "map_sum id address (fst (resourceipsubnetCreate (scripted candidates4 [created ''55''])
                 (subnet_request [] False 24 256) fresh)) = Inr ''10.0.0.0''"
    by code_simp
  then obtain d4' where
    ok4: "fst (resourceipsubnetCreate (scripted candidates4 [created ''55''])
                 (subnet_request [] False 24 256) fresh) = Inr d4'"
    and addr: "address d4' = ''10.0.0.0''"
    by (cases "fst (resourceipsubnetCreate (scripted candidates4 [created ''55''])
                 (subnet_request [] False 24 256) fresh)") auto
  have val: "longtoip (word_of_int ((uint (iptolong ''10.0.0.0'') + 256) mod 2 ^ 32)) = ''10.0.1.0''"
    by code_simp
  have run6: "map_sum id (\<lambda>d'. (address d', gateway d'))
     (fst (resourceip6subnetCreate (scripted candidates6 [created ''66''])
             (subnet6_request ''net'' True 120 256) fresh))
     = Inr (''2001:0db8:0000:0000:0000:0000:0000:0000'', ''2001:0db8:0000:0000:0000:0000:0000:0100'')"
    by code_simp
  then obtain d6' where
    ok6: "fst (resourceip6subnetCreate (scripted candidates6 [created ''66''])
                 (subnet6_request ''net'' True 120 256) fresh) = Inr d6'"
    by (cases "fst (resourceip6subnetCreate (scripted candidates6 [created ''66''])
                 (subnet6_request ''net'' True 120 256) fresh)") auto
  from inst [of "scripted candidates4 [created ''55'']" "subnet_request [] False 24 256" d4']
    ok4 nz4
  have "gateway d4' = longtoip (word_of_int
        ((if gateway_offset (subnet_request [] False 24 256) > 0
          then uint (iptolong (address d4')) + gateway_offset (subnet_request [] False 24 256)
          else uint (iptolong (address d4')) + 2 ^ nat (32 - prefix_size (subnet_request [] False 24 256))
                 - \<bar>gateway_offset (subnet_request [] False 24 256)\<bar> - 1) mod 2 ^ 32))"
    by blast
  also have "\<dots> = ''10.0.1.0''"
    unfolding addr using val by (simp add: subnet_request_def)
  finally have c4: "gateway d4' = ''10.0.1.0''" .
  from inst [of "scripted candidates6 [created ''66'']" _ _
      "subnet6_request ''net'' True 120 256" d6'] ok6 nz6
  obtain a start where "address d6' = hexip6toip6 a" "SetString16 a = Some start"
    "gateway d6' = hexip6toip6 (BigIntToHexStr
           (if gateway_offset (subnet6_request ''net'' True 120 256) > 0
            then start + gateway_offset (subnet6_request ''net'' True 120 256)
            else start + 2 ^ nat (128 - prefix_size (subnet6_request ''net'' True 120 256))
                   - \<bar>gateway_offset (subnet6_request ''net'' True 120 256)\<bar>))"
    by blast
  then have c6: "address d6' = hexip6toip6 a \<and> SetString16 a = Some start \<and>
       gateway d6' = hexip6toip6 (BigIntToHexStr (start + 256))"
    by (simp add: subnet6_request_def)
  from nz4 nz6 ok4 addr c4 run6 ok6 c6 show ?thesis by blast
qed

text \<open>C2 as the claim states it fails: with the block 10.0.0.0/24, offsets 256 and -300 give
  a created subnet whose gateway lies outside the block, not an error; from 255.255.255.0
  offset 256 wraps around to 0.0.0.0; and the IPv6 block 2001:db8::/120 with offset 256
  gets a gateway in the next block.\<close>

theorem gateway_outside_block_accepted:
  "map_sum id gateway (fst (resourceipsubnetCreate (scripted candidates4 [created ''55''])
                              (subnet_request [] False 24 256) fresh)) = Inr ''10.0.1.0'' \<and>
   map_sum id gateway (fst (resourceipsubnetCreate (scripted candidates4 [created ''55''])
                              (subnet_request [] False 24 (- 300)) fresh)) = Inr ''9.255.255.211'' \<and>
   map_sum id address (fst (resourceipsubnetCreate (scripted [''ffffff00''] [created ''55''])
                              (subnet_request [] False 24 256) fresh)) = Inr ''255.255.255.0'' \<and>
   map_sum id gateway (fst (resourceipsubnetCreate (scripted [''ffffff00''] [created ''55''])
                              (subnet_request [] False 24 256) fresh)) = Inr ''0.0.0.0'' \<and>
   map_sum id address (fst (resourceip6subnetCreate (scripted candidates6 [created ''66''])
                              (subnet6_request ''net'' True 120 256) fresh))
     = Inr ''2001:0db8:0000:0000:0000:0000:0000:0000'' \<and>
   map_sum id gateway (fst (resourceip6subnetCreate (scripted candidates6 [created ''66''])
                              (subnet6_request ''net'' True 120 256) fresh))
     = Inr ''2001:0db8:0000:0000:0000:0000:0000:0100''"
  by code_simp

section \<open>Type assertions in the VLAN resource\<close>

text \<open>C8.  The claim: the update of an existing VLAN is one inventory edit call and
  succeeds when the inventory accepts it.  The code never reaches the call: \<open>vlan_id\<close> is a
  \<open>TypeInt\<close> field, \<open>d.Get("vlan_id").(string)\<close> panics, whatever the VLAN and the
  inventory, and nothing is sent.\<close>

theorem resourcevlanUpdate_panics:
  "resourcevlanUpdate s d w =
     (Inl (Panic ''interface conversion: interface {} is int, not string''), w)"
  by (simp add: resourcevlanUpdate_def vlan_Get_def)

text \<open>C4.  The claim: with \<open>request_id > 0\<close> the creation skips the search and runs the
  reservation loop on the singleton list of that identifier.  The code skips the search
  but panics while building the list, on \<open>d.Get("request_id").(string)\<close>, before any
  request.\<close>

theorem resourcevlanCreate_explicit_id_panics:
  "request_id d > 0 \<Longrightarrow>
   resourcevlanCreate s d w =
     (Inl (Panic ''interface conversion: interface {} is int, not string''), w)"
  by (simp add: resourcevlanCreate_def vlan_Get_def)

theorem resourcevlanCreate_explicit_id_panics_witness:
  "request_id (vlan_request 120) > 0 \<and>
   resourcevlanCreate (scripted [] [taken]) (vlan_request 120) fresh =
     (Inl (Panic ''interface conversion: interface {} is int, not string''), fresh) \<and>
   new_events fresh (snd (resourcevlanCreate (scripted [] [taken]) (vlan_request 120) fresh)) = []"
  using resourcevlanCreate_explicit_id_panics [of "vlan_request 120" "scripted [] [taken]" fresh]
  by (simp add: vlan_request_def new_events_def)

end
